theory Spec2Isabelle
  imports Main "HOL-Library.List_Lexorder" "HOL-Library.Char_ord"
begin

section \<open>Data model of the kennel data layer (Datalayer.ts)\<close>

text \<open>
  The module keeps bookings, stays (check-ins) and the kennel profile in the browser's
  \<^verbatim>\<open>localStorage\<close>, one JSON text per key. Strings are \<^typ>\<open>string\<close>, compared
  as JavaScript compares them (lexicographically, code unit by code unit; characters outside
  ASCII are written as their UTF-8 bytes). The numbers of a booking are the integers among
  the JavaScript numbers, as \<^typ>\<open>int\<close>; there \<^verbatim>\<open>NaN\<close> appears only as the result
  \<open>None\<close> of a conversion. A field of a booking or stay that is absent,
  \<^verbatim>\<open>undefined\<close> or \<^verbatim>\<open>null\<close> is \<open>None\<close>: the functions modelled here test such
  a field with \<^verbatim>\<open>||\<close>, \<^verbatim>\<open>??\<close>, \<^verbatim>\<open>!\<close> and \<^verbatim>\<open>===\<close> against a string, which
  do not tell the three apart. The profile is merged with its default by a spread, which
  does: its optional fields are absent, \<^verbatim>\<open>null\<close> or a value, and its nightly rate is
  any JavaScript number with integer finite values. The index signature
  \<^verbatim>\<open>[key: string]: any\<close> of a booking is not modelled: a record has the declared
  fields only.
\<close>

definition STORAGE_PREFIX :: string where
  "STORAGE_PREFIX = ''annisse_''"

definition BOOKING_KEY :: string where
  "BOOKING_KEY = STORAGE_PREFIX @ ''bookings_v2''"

definition CHECKIN_KEY :: string where
  "CHECKIN_KEY = STORAGE_PREFIX @ ''checkins_v2''"

definition PROFILE_KEY :: string where
  "PROFILE_KEY = STORAGE_PREFIX @ ''profile_v1''"

definition KENNEL_ID :: string where
  "KENNEL_ID = ''annisse-001''"

definition FIXED_DAILY_CAPACITY :: int where
  "FIXED_DAILY_CAPACITY = 6"

datatype BookingSource = Owner | Internal | Other

datatype IndoorPet = Inde | Ude

record BookingRecord =
  recId :: string
  kennelId :: string
  status :: "string option"
  createdAt :: string
  source :: "BookingSource option"
  checkIn :: "string option"
  checkOut :: "string option"
  petName :: "string option"
  petNames :: "string option"
  catCount :: "int option"
  roomCount :: "int option"
  ownerName :: "string option"
  ownerPhone :: "string option"
  ownerEmail :: "string option"
  note' :: "string option"
  indoorPet :: "IndoorPet option"
  food :: "string option"
  medicine :: "string option"
  allowSocialMedia :: "bool option"

record CheckinRecord = BookingRecord +
  cageId :: "string option"

text \<open>
  An optional property of an object: not there (or \<^verbatim>\<open>undefined\<close>, which
  \<^verbatim>\<open>JSON.stringify\<close> leaves out as well), \<^verbatim>\<open>null\<close>, or a value. A number is
  finite, \<^verbatim>\<open>NaN\<close> or infinite.
\<close>

datatype 'a optional = Absent | Null | Val 'a

datatype jsnumber = Num int | NaN | PosInfinity | NegInfinity

record KennelProfile =
  profId :: string
  name :: string
  tagline :: "string optional"
  nightlyRate :: "jsnumber optional"
  addressLine1 :: "string optional"
  postalCode :: "string optional"
  city :: "string optional"
  phone :: "string optional"
  email :: "string optional"
  website :: "string optional"
  shortDescription :: "string optional"
  sellingPoints :: "string optional"
  practicalInfo :: "string optional"
  conditionsText :: "string optional"

record OwnerBookingRequestPayload =
  req_checkIn :: string
  req_checkOut :: string
  req_catCount :: string
  req_roomCount :: string
  req_ownerName :: string
  req_ownerPhone :: string
  req_ownerEmail :: string
  req_petNames :: string
  req_indoorPet :: IndoorPet
  req_food :: string
  req_medicine :: string
  req_allowSocialMedia :: bool
  req_note :: string

record CapacityDay =
  date :: string
  booked :: int
  capacity :: int
  free :: int

subsection \<open>The store\<close>

text \<open>
  A stored text is the empty string, a text that \<^verbatim>\<open>JSON.parse\<close> rejects, or the JSON
  text of a value. The values are those the module writes (an array of bookings, an array
  of stays, a profile object), \<^verbatim>\<open>null\<close>, and \<open>JOther\<close>: a number, a string or a
  boolean. An object or an array of another shape is outside the model: the casts
  \<^verbatim>\<open>as T\<close> of the source are unchecked.
\<close>

datatype jsonval =
    JNull
  | JBookings "BookingRecord list"
  | JCheckins "CheckinRecord list"
  | JProfile KennelProfile
  | JOther

datatype rawtext = EmptyText | NotJson | Json jsonval

datatype exn = SecurityError | SyntaxError | QuotaExceededError

text \<open>
  The environment: whether \<^verbatim>\<open>window\<close> exists, whether touching
  \<^verbatim>\<open>window.localStorage\<close> throws, which keys \<^verbatim>\<open>setItem\<close> accepts (it throws on
  the others, as when the quota is exceeded), the stored texts, and the trace of the keys
  \<^verbatim>\<open>setItem\<close> was called with.
\<close>

record storage =
  hasWindow :: bool
  accessDenied :: bool
  accepts :: "string \<Rightarrow> bool"
  items :: "string \<Rightarrow> rawtext option"
  setItemLog :: "string list"

definition isBrowser :: "storage \<Rightarrow> bool" where
  "isBrowser s = hasWindow s"

definition getItem :: "storage \<Rightarrow> string \<Rightarrow> exn + rawtext option" where
  "getItem s key = (if accessDenied s then Inl SecurityError else Inr (items s key))"

definition setItem :: "storage \<Rightarrow> string \<Rightarrow> rawtext \<Rightarrow> exn option \<times> storage" where
  "setItem s key v =
     (if accessDenied s then (Some SecurityError, s)
      else if accepts s key
      then (None, s\<lparr>items := (items s)(key \<mapsto> v), setItemLog := setItemLog s @ [key]\<rparr>)
      else (Some QuotaExceededError, s\<lparr>setItemLog := setItemLog s @ [key]\<rparr>))"

definition JSON_parse :: "rawtext \<Rightarrow> exn + jsonval" where
  "JSON_parse raw = (case raw of Json v \<Rightarrow> Inr v | _ \<Rightarrow> Inl SyntaxError)"

text \<open>
  \<^verbatim>\<open>JSON.stringify\<close> writes a number that is \<^verbatim>\<open>NaN\<close> or infinite as
  \<^verbatim>\<open>null\<close>; everything else of these values is written as it is.
\<close>

fun jsonNumber :: "jsnumber optional \<Rightarrow> jsnumber optional" where
  "jsonNumber (Val (Num n)) = Val (Num n)"
| "jsonNumber (Val _) = Null"
| "jsonNumber v = v"

fun toJSON :: "jsonval \<Rightarrow> jsonval" where
  "toJSON (JProfile p) = JProfile (p\<lparr>nightlyRate := jsonNumber (nightlyRate p)\<rparr>)"
| "toJSON v = v"

definition JSON_stringify :: "jsonval \<Rightarrow> rawtext" where
  "JSON_stringify v = Json (toJSON v)"

text \<open>
  The type parameter \<open>T\<close> of \<^verbatim>\<open>loadArray<T>\<close> is the argument \<open>cast\<close>: it reads a
  parsed value as an array of \<open>T\<close> (\<^verbatim>\<open>Array.isArray(parsed) ? (parsed as T[]) : []\<close>).
  An array of stays read as bookings keeps the booking fields; an array of bookings read as
  stays has no cage.
\<close>

fun asBookings :: "jsonval \<Rightarrow> BookingRecord list" where
  "asBookings (JBookings xs) = xs"
| "asBookings (JCheckins xs) = map BookingRecord.truncate xs"
| "asBookings _ = []"

fun asCheckins :: "jsonval \<Rightarrow> CheckinRecord list" where
  "asCheckins (JCheckins xs) = xs"
| "asCheckins (JBookings xs) = map (\<lambda>b. BookingRecord.extend b (CheckinRecord.fields None)) xs"
| "asCheckins _ = []"

text \<open>The body of the \<^verbatim>\<open>try\<close> block of \<^verbatim>\<open>loadArray\<close>; an exception is \<open>Inl\<close>.\<close>

definition loadArray_try :: "(jsonval \<Rightarrow> 'a list) \<Rightarrow> storage \<Rightarrow> string \<Rightarrow> exn + 'a list" where
  "loadArray_try cast s key =
     (case getItem s key of
        Inl e \<Rightarrow> Inl e
      | Inr None \<Rightarrow> Inr []
      | Inr (Some EmptyText) \<Rightarrow> Inr []
      | Inr (Some raw) \<Rightarrow>
          (case JSON_parse raw of Inl e \<Rightarrow> Inl e | Inr parsed \<Rightarrow> Inr (cast parsed)))"

definition loadArray :: "(jsonval \<Rightarrow> 'a list) \<Rightarrow> storage \<Rightarrow> string \<Rightarrow> 'a list" where
  "loadArray cast s key =
     (if \<not> isBrowser s then []
      else (case loadArray_try cast s key of Inr xs \<Rightarrow> xs | Inl e \<Rightarrow> []))"

definition saveArray :: "('a list \<Rightarrow> jsonval) \<Rightarrow> storage \<Rightarrow> string \<Rightarrow> 'a list \<Rightarrow> storage" where
  "saveArray enc s key v =
     (if \<not> isBrowser s then s
      else (case setItem s key (JSON_stringify (enc v)) of (_, s') \<Rightarrow> s'))"

text \<open>
  \<^verbatim>\<open>loadObject<T>\<close> returns the parsed value as it is (\<^verbatim>\<open>parsed as T\<close>); for the
  profile, \<open>T\<close> is \<^verbatim>\<open>KennelProfile | null\<close>, with \<open>None\<close> for \<^verbatim>\<open>null\<close>. An
  array, a number, a string or a boolean is outside \<open>T\<close>; it is read as \<open>None\<close>, the
  branch such a value takes in \<^verbatim>\<open>loadKennelProfile\<close> (it is falsy or has no
  \<^verbatim>\<open>id\<close>).
\<close>

fun asProfile :: "jsonval \<Rightarrow> KennelProfile option" where
  "asProfile (JProfile p) = Some p"
| "asProfile _ = None"

definition loadObject_try :: "(jsonval \<Rightarrow> 'a) \<Rightarrow> storage \<Rightarrow> string \<Rightarrow> 'a \<Rightarrow> exn + 'a" where
  "loadObject_try cast s key fallback =
     (case getItem s key of
        Inl e \<Rightarrow> Inl e
      | Inr None \<Rightarrow> Inr fallback
      | Inr (Some EmptyText) \<Rightarrow> Inr fallback
      | Inr (Some raw) \<Rightarrow>
          (case JSON_parse raw of Inl e \<Rightarrow> Inl e | Inr parsed \<Rightarrow> Inr (cast parsed)))"

definition loadObject :: "(jsonval \<Rightarrow> 'a) \<Rightarrow> storage \<Rightarrow> string \<Rightarrow> 'a \<Rightarrow> 'a" where
  "loadObject cast s key fallback =
     (if \<not> isBrowser s then fallback
      else (case loadObject_try cast s key fallback of Inr v \<Rightarrow> v | Inl e \<Rightarrow> fallback))"

definition saveObject :: "('a \<Rightarrow> jsonval) \<Rightarrow> storage \<Rightarrow> string \<Rightarrow> 'a \<Rightarrow> storage" where
  "saveObject enc s key v =
     (if \<not> isBrowser s then s
      else (case setItem s key (JSON_stringify (enc v)) of (_, s') \<Rightarrow> s'))"

text \<open>
  \<^verbatim>\<open>newId\<close> reads the clock and the random generator: \<open>stamp\<close> is
  \<^verbatim>\<open>Date.now().toString(36)\<close> and \<open>rnd\<close> is
  \<^verbatim>\<open>Math.random().toString(36).slice(2, 8)\<close>, supplied by the caller of the model.
\<close>

definition newId :: "string \<Rightarrow> string \<Rightarrow> string \<Rightarrow> string" where
  "newId prefix stamp rnd = prefix @ ''_'' @ stamp @ ''_'' @ rnd"

subsection \<open>Dates\<close>

text \<open>
  A \<^verbatim>\<open>Date\<close> is its time value, the milliseconds since the epoch in UTC, or
  \<open>None\<close> for an invalid date (\<^verbatim>\<open>NaN\<close>). \<^verbatim>\<open>Date.parse\<close> is implementation
  defined outside the ISO format, so the functions below take it as the argument
  \<open>parse\<close>. The local time zone is the argument \<open>zone\<close>: \<open>zone t True\<close> is the offset
  of local time from UTC at the instant \<open>t\<close>, \<open>zone t False\<close> the offset that holds at
  the local time \<open>t\<close> (\<^verbatim>\<open>LocalTZA\<close> of ECMAScript).
\<close>

type_synonym zone = "int \<Rightarrow> bool \<Rightarrow> int"

definition utcZone :: zone where
  "utcZone t isUTC = 0"

definition LocalTime :: "zone \<Rightarrow> int \<Rightarrow> int" where
  "LocalTime zone t = t + zone t True"

definition UTC :: "zone \<Rightarrow> int \<Rightarrow> int" where
  "UTC zone t = t - zone t False"

definition msPerDay :: int where
  "msPerDay = 86400000"

definition timeClip :: "int \<Rightarrow> int option" where
  "timeClip t = (if \<bar>t\<bar> \<le> 8640000000000000 then Some t else None)"

definition newDate :: "(string \<Rightarrow> int option) \<Rightarrow> string \<Rightarrow> int option" where
  "newDate parse s = (case parse s of None \<Rightarrow> None | Some t \<Rightarrow> timeClip t)"

text \<open>Year, month and day of the month of a day number (days since 1970-01-01).\<close>

definition civilFromDays :: "int \<Rightarrow> int \<times> int \<times> int" where
  "civilFromDays z0 =
     (let z = z0 + 719468;
          era = z div 146097;
          doe = z - era * 146097;
          yoe = (doe - doe div 1460 + doe div 36524 - doe div 146096) div 365;
          y = yoe + era * 400;
          doy = doe - (365 * yoe + yoe div 4 - yoe div 100);
          mp = (5 * doy + 2) div 153;
          d = doy - (153 * mp + 2) div 5 + 1;
          m = (if mp < 10 then mp + 3 else mp - 9)
      in (if m \<le> 2 then y + 1 else y, m, d))"

definition daysFromCivil :: "int \<Rightarrow> int \<Rightarrow> int \<Rightarrow> int" where
  "daysFromCivil y0 m d =
     (let y = (if m \<le> 2 then y0 - 1 else y0);
          era = y div 400;
          yoe = y - era * 400;
          doy = (153 * (if m > 2 then m - 3 else m + 9) + 2) div 5 + d - 1;
          doe = yoe * 365 + yoe div 4 - yoe div 100 + doy
      in era * 146097 + doe - 719468)"

definition digitChar :: "int \<Rightarrow> char" where
  "digitChar n = ''0123456789'' ! nat (n mod 10)"

fun pad :: "nat \<Rightarrow> int \<Rightarrow> string" where
  "pad 0 n = []"
| "pad (Suc k) n = pad k (n div 10) @ [digitChar n]"

text \<open>
  \<^verbatim>\<open>toISOString\<close>: \<^verbatim>\<open>YYYY-MM-DDTHH:mm:ss.sssZ\<close>, with the year as a sign and six
  digits when it is outside 0..9999.
\<close>

definition toISOString :: "int \<Rightarrow> string" where
  "toISOString t =
     (case civilFromDays (t div msPerDay) of (y, m, d) \<Rightarrow>
        (let ms = t mod msPerDay;
             yearString =
               (if 0 \<le> y \<and> y \<le> 9999 then pad 4 y
                else (if y < 0 then ''-'' else ''+'') @ pad 6 \<bar>y\<bar>)
         in yearString @ ''-'' @ pad 2 m @ ''-'' @ pad 2 d @ ''T''
            @ pad 2 (ms div 3600000) @ '':'' @ pad 2 (ms div 60000 mod 60) @ '':''
            @ pad 2 (ms div 1000 mod 60) @ ''.'' @ pad 3 (ms mod 1000) @ ''Z''))"

text \<open>
  \<^verbatim>\<open>d.setDate(d.getDate() + 1)\<close>: the local time of \<open>d\<close>, one day added to its day
  of the month, read back as an instant. Every zone there is moves \<open>d\<close> forward by this;
  the function says so (\<open>max\<close>), which makes the loop below total.
\<close>

definition setDateNext :: "zone \<Rightarrow> int \<Rightarrow> int" where
  "setDateNext zone d = max (d + 1) (UTC zone (LocalTime zone d + msPerDay))"

text \<open>The \<^verbatim>\<open>while (d <= end)\<close> loop of \<^verbatim>\<open>eachDay\<close>.\<close>

function eachDayLoop :: "zone \<Rightarrow> int \<Rightarrow> int \<Rightarrow> string list \<Rightarrow> string list" where
  "eachDayLoop zone d endT res =
     (if d \<le> endT
      then eachDayLoop zone (setDateNext zone d) endT (res @ [take 10 (toISOString d)])
      else res)"
  by pat_completeness auto
termination
  by (relation "measure (\<lambda>(zone, d, endT, res). nat (endT - d + 1))")
    (auto simp: setDateNext_def)

declare eachDayLoop.simps [simp del]

definition eachDay ::
  "zone \<Rightarrow> (string \<Rightarrow> int option) \<Rightarrow> string \<Rightarrow> string \<Rightarrow> string list" where
  "eachDay zone parse startIso endIso =
     (case newDate parse startIso of
        None \<Rightarrow> []
      | Some start \<Rightarrow>
          (case newDate parse endIso of
             None \<Rightarrow> []
           | Some endT \<Rightarrow> eachDayLoop zone start endT []))"

text \<open>
  An instance of \<open>parse\<close>: \<^verbatim>\<open>Date.parse\<close> on the date-only form \<^verbatim>\<open>YYYY-MM-DD\<close> of
  the ECMAScript date-time format, which is midnight UTC of that day. It rejects every
  other string, also those a browser accepts, and is used for the concrete examples only.
\<close>

definition digitVal :: "char \<Rightarrow> int option" where
  "digitVal c =
     map_of [(CHR ''0'', 0), (CHR ''1'', 1), (CHR ''2'', 2), (CHR ''3'', 3), (CHR ''4'', 4),
             (CHR ''5'', 5), (CHR ''6'', 6), (CHR ''7'', 7), (CHR ''8'', 8), (CHR ''9'', 9)] c"

fun digitsVal :: "string \<Rightarrow> int \<Rightarrow> int option" where
  "digitsVal [] acc = Some acc"
| "digitsVal (c # cs) acc =
     (case digitVal c of None \<Rightarrow> None | Some v \<Rightarrow> digitsVal cs (10 * acc + v))"

definition daysInMonth :: "int \<Rightarrow> int \<Rightarrow> int" where
  "daysInMonth y m =
     (if m = 2 then (if y mod 4 = 0 \<and> (y mod 100 \<noteq> 0 \<or> y mod 400 = 0) then 29 else 28)
      else if m = 4 \<or> m = 6 \<or> m = 9 \<or> m = 11 then 30 else 31)"

definition isoDateParse :: "string \<Rightarrow> int option" where
  "isoDateParse s =
     (if length s = 10 \<and> s ! 4 = CHR ''-'' \<and> s ! 7 = CHR ''-''
      then (case digitsVal (take 4 s) 0 of
              None \<Rightarrow> None
            | Some y \<Rightarrow>
                (case digitsVal (take 2 (drop 5 s)) 0 of
                   None \<Rightarrow> None
                 | Some m \<Rightarrow>
                     (case digitsVal (drop 8 s) 0 of
                        None \<Rightarrow> None
                      | Some d \<Rightarrow>
                          (if 1 \<le> m \<and> m \<le> 12 \<and> 1 \<le> d \<and> d \<le> daysInMonth y m
                           then Some (daysFromCivil y m d * msPerDay)
                           else None))))
      else None)"

section \<open>Bookings and stays\<close>

text \<open>
  \<^verbatim>\<open>listBookingsForKennel\<close>: a record without status gets \<^verbatim>\<open>"pending"\<close>
  (\<^verbatim>\<open>b.status ?? "pending"\<close>); an empty kennel id selects every record.
\<close>

definition listBookingsForKennel :: "storage \<Rightarrow> string \<Rightarrow> BookingRecord list" where
  "listBookingsForKennel s kid =
     filter (\<lambda>b. kid = [] \<or> kennelId b = kid)
       (map (\<lambda>b. b\<lparr>status := Some (case status b of None \<Rightarrow> ''pending'' | Some st \<Rightarrow> st)\<rparr>)
          (loadArray asBookings s BOOKING_KEY))"

definition listCheckinsForKennel :: "storage \<Rightarrow> string \<Rightarrow> CheckinRecord list" where
  "listCheckinsForKennel s kid =
     filter (\<lambda>c. kid = [] \<or> kennelId c = kid) (loadArray asCheckins s CHECKIN_KEY)"

section \<open>Capacity\<close>

text \<open>\<^verbatim>\<open>overlapsDay\<close>: both ends present and non-empty, and \<open>checkIn \<le> day < checkOut\<close>.\<close>

definition overlapsDay :: "string option \<Rightarrow> string option \<Rightarrow> string \<Rightarrow> bool" where
  "overlapsDay startIso endIso dayIso =
     (case startIso of
        None \<Rightarrow> False
      | Some st \<Rightarrow>
          (case endIso of
             None \<Rightarrow> False
           | Some en \<Rightarrow>
               (if st = [] \<or> en = [] then False else st \<le> dayIso \<and> dayIso < en)))"

text \<open>\<^verbatim>\<open>catCount || 1\<close>: an absent or zero count is 1.\<close>

definition countOr1 :: "int option \<Rightarrow> int" where
  "countOr1 c = (case c of None \<Rightarrow> 1 | Some n \<Rightarrow> if n = 0 then 1 else n)"

definition isCheckedOut :: "string option \<Rightarrow> bool" where
  "isCheckedOut st = (st = Some ''checked_out'' \<or> st = Some ''checkedOut'')"

text \<open>\<^verbatim>\<open>status || "pending"\<close>: an absent or empty status is \<^verbatim>\<open>"pending"\<close>.\<close>

definition statusOrPending :: "string option \<Rightarrow> string" where
  "statusOrPending st =
     (case st of None \<Rightarrow> ''pending'' | Some v \<Rightarrow> if v = [] then ''pending'' else v)"

text \<open>The two \<^verbatim>\<open>for\<close> loops of a day, with the running value of \<^verbatim>\<open>booked\<close>.\<close>

fun staysLoop :: "CheckinRecord list \<Rightarrow> string \<Rightarrow> int \<Rightarrow> int" where
  "staysLoop [] day acc = acc"
| "staysLoop (stay # rest) day acc =
     (if isCheckedOut (status stay) then staysLoop rest day acc
      else if overlapsDay (checkIn stay) (checkOut stay) day
      then staysLoop rest day (acc + countOr1 (catCount stay))
      else staysLoop rest day acc)"

fun bookingsLoop :: "BookingRecord list \<Rightarrow> string \<Rightarrow> int \<Rightarrow> int" where
  "bookingsLoop [] day acc = acc"
| "bookingsLoop (b # rest) day acc =
     (if statusOrPending (status b) \<noteq> ''precheck'' then bookingsLoop rest day acc
      else if overlapsDay (checkIn b) (checkOut b) day
      then bookingsLoop rest day (acc + countOr1 (catCount b))
      else bookingsLoop rest day acc)"

text \<open>The value of \<open>booked\<close> after both loops, before it is capped.\<close>

definition bookedOn :: "CheckinRecord list \<Rightarrow> BookingRecord list \<Rightarrow> string \<Rightarrow> int" where
  "bookedOn checkins bookings day = bookingsLoop bookings day (staysLoop checkins day 0)"

definition capacityDayOf :: "CheckinRecord list \<Rightarrow> BookingRecord list \<Rightarrow> string \<Rightarrow> CapacityDay" where
  "capacityDayOf checkins bookings day =
     (let capacityPerDay = FIXED_DAILY_CAPACITY;
          uncapped = bookedOn checkins bookings day;
          cappedBooked = min uncapped capacityPerDay;
          freeCount = max 0 (capacityPerDay - cappedBooked)
      in \<lparr>date = day, booked = cappedBooked, capacity = capacityPerDay, free = freeCount\<rparr>)"

definition getCapacityForRange ::
  "zone \<Rightarrow> (string \<Rightarrow> int option) \<Rightarrow> storage \<Rightarrow> string \<Rightarrow> string \<Rightarrow> string
     \<Rightarrow> CapacityDay list" where
  "getCapacityForRange zone parse s kid startDateIso endDateIso =
     (let bookings = listBookingsForKennel s kid;
          checkins = listCheckinsForKennel s kid;
          dates = eachDay zone parse startDateIso endDateIso
      in map (capacityDayOf checkins bookings) dates)"

definition hasCapacityForBooking ::
  "zone \<Rightarrow> (string \<Rightarrow> int option) \<Rightarrow> storage \<Rightarrow> string \<Rightarrow> 'a BookingRecord_scheme
     \<Rightarrow> bool" where
  "hasCapacityForBooking zone parse s kid booking =
     (case checkIn booking of
        None \<Rightarrow> False
      | Some ci \<Rightarrow>
          (case checkOut booking of
             None \<Rightarrow> False
           | Some co \<Rightarrow>
               (if ci = [] \<or> co = [] then False
                else (let days = getCapacityForRange zone parse s kid ci co;
                          needed = countOr1 (catCount booking)
                      in list_all (\<lambda>d. booked d + needed \<le> capacity d) days))))"

subsection \<open>Status changes and stays\<close>

text \<open>\<^verbatim>\<open>Array.prototype.findIndex\<close>: the first index whose element satisfies \<open>p\<close>, or \<open>-1\<close>.\<close>

fun findIndexFrom :: "('a \<Rightarrow> bool) \<Rightarrow> 'a list \<Rightarrow> int \<Rightarrow> int" where
  "findIndexFrom p [] i = - 1"
| "findIndexFrom p (x # xs) i = (if p x then i else findIndexFrom p xs (i + 1))"

definition findIndex :: "('a \<Rightarrow> bool) \<Rightarrow> 'a list \<Rightarrow> int" where
  "findIndex p xs = findIndexFrom p xs 0"

definition setBookingStatus ::
  "storage \<Rightarrow> string \<Rightarrow> string \<Rightarrow> BookingRecord option \<times> storage" where
  "setBookingStatus s ident st =
     (let all = loadArray asBookings s BOOKING_KEY;
          idx = findIndex (\<lambda>b. recId b = ident) all
      in if idx = - 1 then (None, s)
         else (let all' = all[nat idx := (all ! nat idx)\<lparr>status := Some st\<rparr>]
               in (Some (all' ! nat idx), saveArray JBookings s BOOKING_KEY all')))"

definition acceptBooking :: "storage \<Rightarrow> string \<Rightarrow> BookingRecord option \<times> storage" where
  "acceptBooking s ident = setBookingStatus s ident ''precheck''"

definition cancelBooking :: "storage \<Rightarrow> string \<Rightarrow> BookingRecord option \<times> storage" where
  "cancelBooking s ident = setBookingStatus s ident ''cancelled''"

text \<open>
  \<^verbatim>\<open>Partial<CheckinRecord>\<close>: every field may be missing (\<open>None\<close>); a field that is
  there carries the value it sets, which for an optional field may itself be absent.
\<close>

record CheckinOverrides =
  ov_recId :: "string option"
  ov_kennelId :: "string option"
  ov_status :: "string option option"
  ov_createdAt :: "string option"
  ov_source :: "BookingSource option option"
  ov_checkIn :: "string option option"
  ov_checkOut :: "string option option"
  ov_petName :: "string option option"
  ov_petNames :: "string option option"
  ov_catCount :: "int option option"
  ov_roomCount :: "int option option"
  ov_ownerName :: "string option option"
  ov_ownerPhone :: "string option option"
  ov_ownerEmail :: "string option option"
  ov_note :: "string option option"
  ov_indoorPet :: "IndoorPet option option"
  ov_food :: "string option option"
  ov_medicine :: "string option option"
  ov_allowSocialMedia :: "bool option option"
  ov_cageId :: "string option option"

definition orElse :: "'a option \<Rightarrow> 'a \<Rightarrow> 'a" where
  "orElse v d = (case v of None \<Rightarrow> d | Some x \<Rightarrow> x)"

text \<open>The spread \<^verbatim>\<open>...overrides\<close> at the end of an object literal.\<close>

definition applyOverrides :: "CheckinOverrides \<Rightarrow> CheckinRecord \<Rightarrow> CheckinRecord" where
  "applyOverrides ov r =
     r\<lparr>recId := orElse (ov_recId ov) (recId r),
       kennelId := orElse (ov_kennelId ov) (kennelId r),
       status := orElse (ov_status ov) (status r),
       createdAt := orElse (ov_createdAt ov) (createdAt r),
       source := orElse (ov_source ov) (source r),
       checkIn := orElse (ov_checkIn ov) (checkIn r),
       checkOut := orElse (ov_checkOut ov) (checkOut r),
       petName := orElse (ov_petName ov) (petName r),
       petNames := orElse (ov_petNames ov) (petNames r),
       catCount := orElse (ov_catCount ov) (catCount r),
       roomCount := orElse (ov_roomCount ov) (roomCount r),
       ownerName := orElse (ov_ownerName ov) (ownerName r),
       ownerPhone := orElse (ov_ownerPhone ov) (ownerPhone r),
       ownerEmail := orElse (ov_ownerEmail ov) (ownerEmail r),
       note' := orElse (ov_note ov) (note' r),
       indoorPet := orElse (ov_indoorPet ov) (indoorPet r),
       food := orElse (ov_food ov) (food r),
       medicine := orElse (ov_medicine ov) (medicine r),
       allowSocialMedia := orElse (ov_allowSocialMedia ov) (allowSocialMedia r),
       cageId := orElse (ov_cageId ov) (cageId r)\<rparr>"

definition emptyOverrides :: CheckinOverrides where
  "emptyOverrides =
     \<lparr>ov_recId = None,
      ov_kennelId = None,
      ov_status = None,
      ov_createdAt = None,
      ov_source = None,
      ov_checkIn = None,
      ov_checkOut = None,
      ov_petName = None,
      ov_petNames = None,
      ov_catCount = None,
      ov_roomCount = None,
      ov_ownerName = None,
      ov_ownerPhone = None,
      ov_ownerEmail = None,
      ov_note = None,
      ov_indoorPet = None,
      ov_food = None,
      ov_medicine = None,
      ov_allowSocialMedia = None,
      ov_cageId = None\<rparr>"

text \<open>
  \<^verbatim>\<open>createCheckinFromBooking\<close>: the new stay is the object literal
  \<^verbatim>\<open>{...booking, id: newId("c"), status: "checked_in", cageId: null, ...overrides}\<close>;
  it is appended to the stays and written, and then the booking is marked
  \<^verbatim>\<open>"converted"\<close>, whatever became of the first write.
\<close>

definition createCheckinFromBooking ::
  "string \<Rightarrow> string \<Rightarrow> storage \<Rightarrow> BookingRecord \<Rightarrow> CheckinOverrides
     \<Rightarrow> CheckinRecord \<times> storage" where
  "createCheckinFromBooking stamp rnd s booking overrides =
     (let all = loadArray asCheckins s CHECKIN_KEY;
          stay = applyOverrides overrides
                   (BookingRecord.extend
                      (booking\<lparr>recId := newId ''c'' stamp rnd, status := Some ''checked_in''\<rparr>)
                      (CheckinRecord.fields None));
          s1 = saveArray JCheckins s CHECKIN_KEY (all @ [stay])
      in (stay, snd (setBookingStatus s1 (recId booking) ''converted'')))"

definition checkOutCheckin :: "storage \<Rightarrow> string \<Rightarrow> storage" where
  "checkOutCheckin s ident =
     (let all = loadArray asCheckins s CHECKIN_KEY;
          idx = findIndex (\<lambda>c. recId c = ident) all
      in if idx = - 1 then s
         else saveArray JCheckins s CHECKIN_KEY
                (all[nat idx := (all ! nat idx)\<lparr>status := Some ''checked_out''\<rparr>]))"

definition assignCageToCheckin ::
  "storage \<Rightarrow> string \<Rightarrow> string option \<Rightarrow> CheckinRecord option \<times> storage" where
  "assignCageToCheckin s checkinId cage =
     (let all = loadArray asCheckins s CHECKIN_KEY;
          idx = findIndex (\<lambda>c. recId c = checkinId) all
      in if idx = - 1 then (None, s)
         else (let all' = all[nat idx := (all ! nat idx)\<lparr>cageId := cage\<rparr>]
               in (Some (all' ! nat idx), saveArray JCheckins s CHECKIN_KEY all')))"

section \<open>Kennel profile\<close>

definition DEFAULT_PROFILE :: KennelProfile where
  "DEFAULT_PROFILE =
   \<lparr>profId = KENNEL_ID,
     name = ''Annisse Kattepension'',
     tagline =
       Val (''Luksuri'' @ [CHR 0xC3, CHR 0xB8] @ ''s, familiedrevet kattepension''),
     nightlyRate = Val (Num 325),
     addressLine1 = Val ''Kattegangen 12'',
     postalCode = Val ''3200'',
     city = Val ''Annisse'',
     phone = Val ''12 34 56 78'',
     email = Val ''kontakt@annisse-kattepension.dk'',
     website = Val ''https://annisse-kattepension.dk'',
     shortDescription =
       Val (''Hos Annisse Kattepension f'' @ [CHR 0xC3, CHR 0xA5]
         @ ''r hver kat sit eget rummelige bur med adgang til b'' @ [CHR 0xC3, CHR 0xA5]
         @ ''de inde- og udeomr'' @ [CHR 0xC3, CHR 0xA5] @ ''de. Vi l''
         @ [CHR 0xC3, CHR 0xA6] @ ''gger v'' @ [CHR 0xC3, CHR 0xA6] @ ''gt p''
         @ [CHR 0xC3, CHR 0xA5] @ '' ro, n'' @ [CHR 0xC3, CHR 0xA6] @ ''rv''
         @ [CHR 0xC3, CHR 0xA6] @ ''r og gennemsigtighed ''
         @ [CHR 0xE2, CHR 0x80, CHR 0x93] @ '' b'' @ [CHR 0xC3, CHR 0xA5]
         @ ''de for kat og ejer.''),
     sellingPoints =
       Val (''Familiedrevet og n'' @ [CHR 0xC3, CHR 0xA6] @ ''rv'' @ [CHR 0xC3, CHR 0xA6]
         @ ''rende hverdag'' @ [CHR 0x0A] @ ''Eget bur til hver kat ''
         @ [CHR 0xE2, CHR 0x80, CHR 0x93] @ '' ingen tvangssammens''
         @ [CHR 0xC3, CHR 0xA6] @ ''tning'' @ [CHR 0x0A] @ ''Inde- og udeomr''
         @ [CHR 0xC3, CHR 0xA5] @ ''de efter kattens temperament'' @ [CHR 0x0A]
         @ ''Mulighed for opdateringer med billeder/video'' @ [CHR 0x0A]
         @ ''Roligt milj'' @ [CHR 0xC3, CHR 0xB8] @ '' med fokus p''
         @ [CHR 0xC3, CHR 0xA5] @ '' trivsel''),
     practicalInfo =
       Val (''Katten skal v'' @ [CHR 0xC3, CHR 0xA6] @ ''re vaccineret efter g''
         @ [CHR 0xC3, CHR 0xA6] @ ''ldende anbefalinger.'' @ [CHR 0x0A]
         @ ''Medbring gerne eget foder, hvis katten er kr'' @ [CHR 0xC3, CHR 0xA6]
         @ ''sen eller p'' @ [CHR 0xC3, CHR 0xA5] @ '' specialkost.'' @ [CHR 0x0A]
         @ ''Medicin gives efter aftale og noteres i bookingformularen.'' @ [CHR 0x0A]
         @ ''Ind- og udtjek sker som udgangspunkt efter aftale for at sikre ''
         @ ''ro i huset.''),
     conditionsText =
       Val (''Her kan du skrive dine egne betingelser for ophold i Annisse ''
         @ ''Kattepension. For eksempel betalingsbetingelser, afbestillingsregler, ''
         @ ''krav til vaccination, medicin, forsinket afhentning og andet ''
         @ ''praktisk.'' @ [CHR 0x0A, CHR 0x0A]
         @ ''Den tekst du skriver her, vises direkte p'' @ [CHR 0xC3, CHR 0xA5]
         @ '' siden '' @ [CHR 0xE2, CHR 0x80, CHR 0x9C] @ ''Betingelser''
         @ [CHR 0xE2, CHR 0x80, CHR 0x9D] @ '' p'' @ [CHR 0xC3, CHR 0xA5]
         @ '' hjemmesiden.'')\<rparr>"

text \<open>
  The spread \<^verbatim>\<open>{...DEFAULT_PROFILE, ...stored}\<close>: a field of \<open>stored\<close> that is there
  wins, also when it is \<^verbatim>\<open>null\<close>; a field it lacks keeps the default.
\<close>

definition orSet :: "'a optional \<Rightarrow> 'a optional \<Rightarrow> 'a optional" where
  "orSet v d = (case v of Absent \<Rightarrow> d | Null \<Rightarrow> Null | Val x \<Rightarrow> Val x)"

definition spreadProfile :: "KennelProfile \<Rightarrow> KennelProfile \<Rightarrow> KennelProfile" where
  "spreadProfile base over =
     \<lparr>profId = profId over,
      name = name over,
      tagline = orSet (tagline over) (tagline base),
      nightlyRate = orSet (nightlyRate over) (nightlyRate base),
      addressLine1 = orSet (addressLine1 over) (addressLine1 base),
      postalCode = orSet (postalCode over) (postalCode base),
      city = orSet (city over) (city base),
      phone = orSet (phone over) (phone base),
      email = orSet (email over) (email base),
      website = orSet (website over) (website base),
      shortDescription = orSet (shortDescription over) (shortDescription base),
      sellingPoints = orSet (sellingPoints over) (sellingPoints base),
      practicalInfo = orSet (practicalInfo over) (practicalInfo base),
      conditionsText = orSet (conditionsText over) (conditionsText base)\<rparr>"

definition loadKennelProfile :: "storage \<Rightarrow> string \<Rightarrow> KennelProfile" where
  "loadKennelProfile s kid =
     (case loadObject asProfile s PROFILE_KEY None of
        None \<Rightarrow> DEFAULT_PROFILE
      | Some stored \<Rightarrow>
          (if profId stored \<noteq> kid then DEFAULT_PROFILE
           else spreadProfile DEFAULT_PROFILE stored))"

definition saveKennelProfile :: "storage \<Rightarrow> KennelProfile \<Rightarrow> storage" where
  "saveKennelProfile s profile = saveObject JProfile s PROFILE_KEY profile"

section \<open>Booking request of the owner's form\<close>

text \<open>
  \<^verbatim>\<open>Number(str || "1") || 1\<close>. \<^verbatim>\<open>Number\<close> is the argument \<open>toNumber\<close>, with
  \<open>None\<close> for \<^verbatim>\<open>NaN\<close>. The clock gives \<open>stamp\<close> and \<open>nowIso\<close>
  (\<^verbatim>\<open>new Date().toISOString()\<close>); a kennel id that is not passed is \<open>None\<close> and
  defaults to \<open>KENNEL_ID\<close>.
\<close>

definition numberOr1 :: "(string \<Rightarrow> int option) \<Rightarrow> string \<Rightarrow> int" where
  "numberOr1 toNumber str =
     (case toNumber (if str = [] then ''1'' else str) of
        None \<Rightarrow> 1
      | Some n \<Rightarrow> if n = 0 then 1 else n)"

definition createBookingRequest ::
  "(string \<Rightarrow> int option) \<Rightarrow> string \<Rightarrow> string \<Rightarrow> string \<Rightarrow> storage
     \<Rightarrow> OwnerBookingRequestPayload \<Rightarrow> string option \<Rightarrow> BookingRecord \<times> storage" where
  "createBookingRequest toNumber stamp rnd nowIso s payload kennel =
     (let all = loadArray asBookings s BOOKING_KEY;
          catCount' = numberOr1 toNumber (req_catCount payload);
          roomCount' = numberOr1 toNumber (req_roomCount payload);
          booking =
            \<lparr>recId = newId ''b'' stamp rnd,
             kennelId = orElse kennel KENNEL_ID,
             status = Some ''pending'',
             createdAt = nowIso,
             source = Some Owner,
             checkIn = Some (req_checkIn payload),
             checkOut = Some (req_checkOut payload),
             petName = Some (req_petNames payload),
             petNames = Some (req_petNames payload),
             catCount = Some catCount',
             roomCount = Some roomCount',
             ownerName = Some (req_ownerName payload),
             ownerPhone = Some (req_ownerPhone payload),
             ownerEmail = Some (req_ownerEmail payload),
             note' = Some (req_note payload),
             indoorPet = Some (req_indoorPet payload),
             food = Some (req_food payload),
             medicine = Some (req_medicine payload),
             allowSocialMedia = Some (req_allowSocialMedia payload)\<rparr>
      in (booking, saveArray JBookings s BOOKING_KEY (all @ [booking])))"

section \<open>Example stores\<close>

text \<open>
  A booking and a stay with the given id, kennel, status, dates and number of cats, and a
  browser store that holds the given bookings and stays and accepts every write.
\<close>

definition exampleBooking ::
  "string \<Rightarrow> string \<Rightarrow> string \<Rightarrow> string \<Rightarrow> string \<Rightarrow> int \<Rightarrow> BookingRecord" where
  "exampleBooking ident kid st ci co cats =
     \<lparr>recId = ident, kennelId = kid, status = Some st,
      createdAt = ''2024-01-01T00:00:00.000Z'', source = Some Internal,
      checkIn = Some ci, checkOut = Some co, petName = None, petNames = None,
      catCount = Some cats, roomCount = None, ownerName = None, ownerPhone = None,
      ownerEmail = None, note' = None, indoorPet = None, food = None, medicine = None,
      allowSocialMedia = None\<rparr>"

definition exampleStay ::
  "string \<Rightarrow> string \<Rightarrow> string \<Rightarrow> string \<Rightarrow> string \<Rightarrow> int \<Rightarrow> CheckinRecord" where
  "exampleStay ident kid st ci co cats =
     BookingRecord.extend (exampleBooking ident kid st ci co cats) (CheckinRecord.fields None)"

definition browserStore :: "BookingRecord list \<Rightarrow> CheckinRecord list \<Rightarrow> storage" where
  "browserStore bs cs =
     \<lparr>hasWindow = True, accessDenied = False, accepts = (\<lambda>key. True),
      items = [BOOKING_KEY \<mapsto> Json (JBookings bs), CHECKIN_KEY \<mapsto> Json (JCheckins cs)],
      setItemLog = []\<rparr>"

text \<open>
  An instance of \<open>toNumber\<close>: \<^verbatim>\<open>Number\<close> on decimal digits with an optional minus
  sign, and on the empty string, which is 0. It rejects every other string, also those
  \<^verbatim>\<open>Number\<close> accepts, and is used for the concrete examples only.
\<close>

definition decimalNumber :: "string \<Rightarrow> int option" where
  "decimalNumber str =
     (case str of
        [] \<Rightarrow> Some 0
      | c # cs \<Rightarrow>
          (if c = CHR ''-''
           then (if cs = [] then None else map_option uminus (digitsVal cs 0))
           else digitsVal str 0))"

definition examplePayload :: "string \<Rightarrow> string \<Rightarrow> OwnerBookingRequestPayload" where
  "examplePayload cats rooms =
     \<lparr>req_checkIn = ''2024-02-01'', req_checkOut = ''2024-02-03'', req_catCount = cats,
      req_roomCount = rooms, req_ownerName = ''Ida'', req_ownerPhone = ''12 34 56 78'',
      req_ownerEmail = ''ida@example.org'', req_petNames = ''Mis'', req_indoorPet = Inde,
      req_food = [], req_medicine = [], req_allowSocialMedia = False, req_note = []\<rparr>"

text \<open>
  A profile that sets its id, name, tagline and nightly rate and leaves every other field
  out.
\<close>

definition exampleProfile :: "jsnumber optional \<Rightarrow> KennelProfile" where
  "exampleProfile rate =
     \<lparr>profId = ''kennel-7'', name = ''Kattehuset'', tagline = Val ''Ro og pleje'',
      nightlyRate = rate, addressLine1 = Absent, postalCode = Absent, city = Absent,
      phone = Absent, email = Absent, website = Absent, shortDescription = Absent,
      sellingPoints = Absent, practicalInfo = Absent, conditionsText = Absent\<rparr>"

text \<open>
  A zone one hour ahead of UTC that moves its clocks forward by an hour at
  2024-03-31T01:00Z, as Central European Time does. The local times between 02:00 and
  03:00 of that day do not exist and are read with the offset before the change.
\<close>

definition cetSpring2024 :: zone where
  "cetSpring2024 t isUTC =
     (if isUTC then (if t < 1711846800000 then 3600000 else 7200000)
      else (if t < 1711854000000 then 3600000 else 7200000))"

section \<open>The occupancy of a day\<close>

text \<open>
  What a stored record adds to a day, in the words of the specification. The interval
  \<open>[checkIn, checkOut)\<close> contains a day when both ends are there and
  \<open>checkIn \<le> day < checkOut\<close>, as strings. A record is of a tenant when the tenant id
  is empty or is the record's kennel id. A stay adds its number of cats (1 when absent or
  zero) unless it is checked out; \<open>claimedStayShare\<close> reads "checked out" as the status
  \<^verbatim>\<open>"checked_out"\<close> alone, \<open>stayShare\<close> as \<^verbatim>\<open>"checked_out"\<close> or
  \<^verbatim>\<open>"checkedOut"\<close>. A booking adds its number of cats when its status is
  \<^verbatim>\<open>"precheck"\<close>.
\<close>

definition inInterval :: "'a BookingRecord_scheme \<Rightarrow> string \<Rightarrow> bool" where
  "inInterval r day =
     (case checkIn r of
        None \<Rightarrow> False
      | Some ci \<Rightarrow>
          (case checkOut r of
             None \<Rightarrow> False
           | Some co \<Rightarrow> ci \<noteq> [] \<and> co \<noteq> [] \<and> ci \<le> day \<and> day < co))"

definition ofTenant :: "string \<Rightarrow> 'a BookingRecord_scheme \<Rightarrow> bool" where
  "ofTenant kid r = (kid = [] \<or> kennelId r = kid)"

definition stayShare :: "string \<Rightarrow> string \<Rightarrow> CheckinRecord \<Rightarrow> int" where
  "stayShare kid day stay =
     (if ofTenant kid stay \<and> status stay \<noteq> Some ''checked_out''
         \<and> status stay \<noteq> Some ''checkedOut'' \<and> inInterval stay day
      then countOr1 (catCount stay) else 0)"

definition claimedStayShare :: "string \<Rightarrow> string \<Rightarrow> CheckinRecord \<Rightarrow> int" where
  "claimedStayShare kid day stay =
     (if ofTenant kid stay \<and> status stay \<noteq> Some ''checked_out'' \<and> inInterval stay day
      then countOr1 (catCount stay) else 0)"

definition bookingShare :: "string \<Rightarrow> string \<Rightarrow> BookingRecord \<Rightarrow> int" where
  "bookingShare kid day b =
     (if ofTenant kid b \<and> status b = Some ''precheck'' \<and> inInterval b day
      then countOr1 (catCount b) else 0)"

definition staysOccupancy :: "storage \<Rightarrow> string \<Rightarrow> string \<Rightarrow> int" where
  "staysOccupancy s kid day =
     (\<Sum>stay\<leftarrow>loadArray asCheckins s CHECKIN_KEY. stayShare kid day stay)"

definition bookingsOccupancy :: "storage \<Rightarrow> string \<Rightarrow> string \<Rightarrow> int" where
  "bookingsOccupancy s kid day =
     (\<Sum>b\<leftarrow>loadArray asBookings s BOOKING_KEY. bookingShare kid day b)"

definition occupancy :: "storage \<Rightarrow> string \<Rightarrow> string \<Rightarrow> int" where
  "occupancy s kid day = staysOccupancy s kid day + bookingsOccupancy s kid day"

definition claimedOccupancy :: "storage \<Rightarrow> string \<Rightarrow> string \<Rightarrow> int" where
  "claimedOccupancy s kid day =
     (\<Sum>stay\<leftarrow>loadArray asCheckins s CHECKIN_KEY. claimedStayShare kid day stay)
     + bookingsOccupancy s kid day"

text \<open>
  The stay the specification describes for a booking: a copy of its fields with the given
  id, status \<^verbatim>\<open>"checked_in"\<close> and no cage.
\<close>

definition stayOfBooking :: "string \<Rightarrow> BookingRecord \<Rightarrow> CheckinRecord" where
  "stayOfBooking ident b =
     \<lparr>recId = ident, kennelId = kennelId b, status = Some ''checked_in'',
      createdAt = createdAt b, source = source b, checkIn = checkIn b, checkOut = checkOut b,
      petName = petName b, petNames = petNames b, catCount = catCount b,
      roomCount = roomCount b, ownerName = ownerName b, ownerPhone = ownerPhone b,
      ownerEmail = ownerEmail b, note' = note' b, indoorPet = indoorPet b, food = food b,
      medicine = medicine b, allowSocialMedia = allowSocialMedia b, cageId = None\<rparr>"

section \<open>Verified properties\<close>

subsection \<open>Reading the store\<close>

text \<open>
  C8. A read of the store never fails: without a window, when \<^verbatim>\<open>localStorage\<close> throws,
  when the key is missing, and when the text does not parse as JSON, \<open>loadArray\<close> returns
  the empty list and \<open>loadObject\<close> the fallback. Every exception of the \<^verbatim>\<open>try\<close> block
  (an \<open>Inl\<close> of \<open>loadArray_try\<close>, \<open>loadObject_try\<close>) is caught and turned into that
  value.
\<close>

theorem storage_reads_degrade:
  "(\<not> isBrowser s \<longrightarrow>
      loadArray cast s key = [] \<and> loadObject cast' s key fallback = fallback) \<and>
   (getItem s key = Inl e \<longrightarrow>
      loadArray cast s key = [] \<and> loadObject cast' s key fallback = fallback) \<and>
   (getItem s key = Inr None \<longrightarrow>
      loadArray cast s key = [] \<and> loadObject cast' s key fallback = fallback) \<and>
   (getItem s key = Inr (Some raw) \<longrightarrow> JSON_parse raw = Inl e \<longrightarrow>
      loadArray cast s key = [] \<and> loadObject cast' s key fallback = fallback) \<and>
   (loadArray_try cast s key = Inl e \<longrightarrow> loadArray cast s key = []) \<and>
   (loadObject_try cast' s key fallback = Inl e \<longrightarrow>
      loadObject cast' s key fallback = fallback)"
  by (auto simp: loadArray_def loadObject_def loadArray_try_def loadObject_try_def
        JSON_parse_def split: rawtext.splits)

theorem storage_reads_degrade_witness:
  "loadArray asBookings ((browserStore [] [])\<lparr>hasWindow := False\<rparr>) BOOKING_KEY = [] \<and>
   loadObject asProfile ((browserStore [] [])\<lparr>accessDenied := True\<rparr>) PROFILE_KEY None = None \<and>
   loadObject asProfile (browserStore [] []) PROFILE_KEY (Some DEFAULT_PROFILE)
     = Some DEFAULT_PROFILE \<and>
   loadArray asCheckins
     ((browserStore [] [])\<lparr>items := (items (browserStore [] []))(CHECKIN_KEY \<mapsto> NotJson)\<rparr>)
     CHECKIN_KEY = []"
proof -
  let ?s = "browserStore [] []"
  let ?bad = "?s\<lparr>items := (items ?s)(CHECKIN_KEY \<mapsto> NotJson)\<rparr>"
  have keys: "PROFILE_KEY \<noteq> BOOKING_KEY" "PROFILE_KEY \<noteq> CHECKIN_KEY"
    by (simp_all add: PROFILE_KEY_def BOOKING_KEY_def CHECKIN_KEY_def)
  have 1: "\<not> isBrowser (?s\<lparr>hasWindow := False\<rparr>)"
    by (simp add: isBrowser_def)
  have 2: "getItem (?s\<lparr>accessDenied := True\<rparr>) PROFILE_KEY = Inl SecurityError"
    by (simp add: getItem_def)
  have 3: "getItem ?s PROFILE_KEY = Inr None"
    using keys by (simp add: getItem_def browserStore_def)
  have 4: "getItem ?bad CHECKIN_KEY = Inr (Some NotJson)"
    by (simp add: getItem_def browserStore_def)
  have 5: "JSON_parse NotJson = Inl SyntaxError"
    by (simp add: JSON_parse_def)
  have a: "loadArray asBookings (?s\<lparr>hasWindow := False\<rparr>) BOOKING_KEY = []"
    using 1 storage_reads_degrade [where s = "?s\<lparr>hasWindow := False\<rparr>" and cast = asBookings
        and key = BOOKING_KEY and cast' = asProfile and fallback = None
        and e = SecurityError and raw = NotJson]
    by blast
  have b: "loadObject asProfile (?s\<lparr>accessDenied := True\<rparr>) PROFILE_KEY None = None"
    using 2 storage_reads_degrade [where s = "?s\<lparr>accessDenied := True\<rparr>"
        and cast = asBookings and key = PROFILE_KEY and cast' = asProfile and fallback = None
        and e = SecurityError and raw = NotJson]
    by blast
  have c: "loadObject asProfile ?s PROFILE_KEY (Some DEFAULT_PROFILE) = Some DEFAULT_PROFILE"
    using 3 storage_reads_degrade [where s = ?s and cast = asBookings and key = PROFILE_KEY
        and cast' = asProfile and fallback = "Some DEFAULT_PROFILE" and e = SecurityError
        and raw = NotJson]
    by blast
  have d: "loadArray asCheckins ?bad CHECKIN_KEY = []"
    using 4 5 storage_reads_degrade [where s = ?bad and cast = asCheckins and key = CHECKIN_KEY
        and cast' = asProfile and fallback = None and e = SyntaxError and raw = NotJson]
    by blast
  show ?thesis
    using a b c d by blast
qed

subsection \<open>Lookups that miss\<close>

lemma storage_keys_distinct:
  "BOOKING_KEY \<noteq> CHECKIN_KEY" "CHECKIN_KEY \<noteq> BOOKING_KEY"
  "PROFILE_KEY \<noteq> BOOKING_KEY" "PROFILE_KEY \<noteq> CHECKIN_KEY"
  by (simp_all add: BOOKING_KEY_def CHECKIN_KEY_def PROFILE_KEY_def)

lemma loadArray_browserStore:
  "loadArray asBookings (browserStore bs cs) BOOKING_KEY = bs"
  "loadArray asCheckins (browserStore bs cs) CHECKIN_KEY = cs"
  by (simp_all add: loadArray_def loadArray_try_def isBrowser_def getItem_def JSON_parse_def
        browserStore_def storage_keys_distinct)

lemma findIndexFrom_none: "(\<forall>x\<in>set xs. \<not> p x) \<Longrightarrow> findIndexFrom p xs i = - 1"
  by (induction xs arbitrary: i) auto

lemma findIndex_none: "(\<forall>x\<in>set xs. \<not> p x) \<Longrightarrow> findIndex p xs = - 1"
  by (simp add: findIndex_def findIndexFrom_none)

lemma findIndex_recId_none:
  fixes xs :: "'a BookingRecord_scheme list"
  assumes "ident \<notin> recId ` set xs"
  shows "findIndex (\<lambda>b. recId b = ident) xs = - 1"
  using assms by (intro findIndex_none) auto

text \<open>
  C9. When no stored booking has the id, \<open>setBookingStatus\<close> returns \<^verbatim>\<open>null\<close>; when no
  stored stay has it, \<open>assignCageToCheckin\<close> returns \<^verbatim>\<open>null\<close> and \<open>checkOutCheckin\<close>
  returns; in each case nothing is written and the store is what it was.
\<close>

theorem missing_id_leaves_store:
  "(ident \<notin> recId ` set (loadArray asBookings s BOOKING_KEY) \<longrightarrow>
      setBookingStatus s ident st = (None, s)) \<and>
   (ident \<notin> recId ` set (loadArray asCheckins s CHECKIN_KEY) \<longrightarrow>
      assignCageToCheckin s ident cage = (None, s) \<and> checkOutCheckin s ident = s)"
  by (simp add: setBookingStatus_def assignCageToCheckin_def checkOutCheckin_def
        findIndex_recId_none Let_def)

theorem missing_id_leaves_store_witness:
  "setBookingStatus
     (browserStore [exampleBooking ''b_1'' ''annisse-001'' ''pending'' ''2024-02-01'' ''2024-02-03'' 2]
        [exampleStay ''c_1'' ''annisse-001'' ''checked_in'' ''2024-01-10'' ''2024-01-12'' 1])
     ''b_2'' ''precheck''
   = (None,
      browserStore [exampleBooking ''b_1'' ''annisse-001'' ''pending'' ''2024-02-01'' ''2024-02-03'' 2]
        [exampleStay ''c_1'' ''annisse-001'' ''checked_in'' ''2024-01-10'' ''2024-01-12'' 1]) \<and>
   checkOutCheckin
     (browserStore [exampleBooking ''b_1'' ''annisse-001'' ''pending'' ''2024-02-01'' ''2024-02-03'' 2]
        [exampleStay ''c_1'' ''annisse-001'' ''checked_in'' ''2024-01-10'' ''2024-01-12'' 1])
     ''c_2''
   = browserStore [exampleBooking ''b_1'' ''annisse-001'' ''pending'' ''2024-02-01'' ''2024-02-03'' 2]
       [exampleStay ''c_1'' ''annisse-001'' ''checked_in'' ''2024-01-10'' ''2024-01-12'' 1]"
proof -
  let ?b = "exampleBooking ''b_1'' ''annisse-001'' ''pending'' ''2024-02-01'' ''2024-02-03'' 2"
  let ?c = "exampleStay ''c_1'' ''annisse-001'' ''checked_in'' ''2024-01-10'' ''2024-01-12'' 1"
  let ?s = "browserStore [?b] [?c]"
  have 1: "''b_2'' \<notin> recId ` set (loadArray asBookings ?s BOOKING_KEY)"
    unfolding loadArray_browserStore by (simp add: exampleBooking_def)
  have 2: "''c_2'' \<notin> recId ` set (loadArray asCheckins ?s CHECKIN_KEY)"
    unfolding loadArray_browserStore
    by (simp add: exampleStay_def exampleBooking_def BookingRecord.defs)
  show ?thesis
    using 1 2 missing_id_leaves_store [where s = ?s and ident = "''b_2''" and st = "''precheck''"
        and cage = None]
      missing_id_leaves_store [where s = ?s and ident = "''c_2''" and st = "''precheck''"
        and cage = None]
    by blast
qed

subsection \<open>Dates that do not parse or are reversed\<close>

lemma eachDayLoop_after: "endT < d \<Longrightarrow> eachDayLoop zone d endT res = res"
  by (simp add: eachDayLoop.simps)

lemma eachDay_empty:
  assumes "newDate parse a = None \<or> newDate parse b = None \<or>
    (\<exists>t u. newDate parse a = Some t \<and> newDate parse b = Some u \<and> u < t)"
  shows "eachDay zone parse a b = []"
  using assms by (auto simp: eachDay_def eachDayLoop_after split: option.splits)

text \<open>
  C10. A candidate whose check-in and check-out are non-empty strings of which one does
  not parse as a date, or whose check-in date is after its check-out date, has no day
  enumerated: \<open>getCapacityForRange\<close> returns the empty list and \<open>hasCapacityForBooking\<close>
  returns true, whatever is stored. A missing or empty check-in or check-out makes
  \<open>hasCapacityForBooking\<close> return false.
\<close>

theorem unusable_dates_are_admitted:
  "(checkIn b = Some ci \<and> checkOut b = Some co \<and> ci \<noteq> [] \<and> co \<noteq> [] \<and>
     (newDate parse ci = None \<or> newDate parse co = None \<or>
      (\<exists>t u. newDate parse ci = Some t \<and> newDate parse co = Some u \<and> u < t)) \<longrightarrow>
     eachDay zone parse ci co = [] \<and> getCapacityForRange zone parse s kid ci co = [] \<and>
     hasCapacityForBooking zone parse s kid b) \<and>
   (checkIn b = None \<or> checkIn b = Some [] \<or> checkOut b = None \<or> checkOut b = Some [] \<longrightarrow>
     \<not> hasCapacityForBooking zone parse s kid b)"
  by (auto simp: hasCapacityForBooking_def getCapacityForRange_def eachDay_empty Let_def
        split: option.splits)

theorem unusable_dates_are_admitted_witness:
  "hasCapacityForBooking utcZone isoDateParse
     (browserStore [exampleBooking ''b_1'' ''annisse-001'' ''precheck'' ''2024-02-01'' ''2024-02-09'' 6] [])
     ''annisse-001''
     (exampleBooking ''b_2'' ''annisse-001'' ''pending'' ''2024-02-05'' ''2024-02-02'' 3) \<and>
   hasCapacityForBooking utcZone isoDateParse
     (browserStore [exampleBooking ''b_1'' ''annisse-001'' ''precheck'' ''2024-02-01'' ''2024-02-09'' 6] [])
     ''annisse-001''
     (exampleBooking ''b_3'' ''annisse-001'' ''pending'' ''next week'' ''2024-02-02'' 3) \<and>
   \<not> hasCapacityForBooking utcZone isoDateParse (browserStore [] []) ''annisse-001''
     (exampleBooking ''b_4'' ''annisse-001'' ''pending'' [] ''2024-02-02'' 1)"
proof -
  let ?s = "browserStore
    [exampleBooking ''b_1'' ''annisse-001'' ''precheck'' ''2024-02-01'' ''2024-02-09'' 6] []"
  let ?b2 = "exampleBooking ''b_2'' ''annisse-001'' ''pending'' ''2024-02-05'' ''2024-02-02'' 3"
  let ?b3 = "exampleBooking ''b_3'' ''annisse-001'' ''pending'' ''next week'' ''2024-02-02'' 3"
  let ?b4 = "exampleBooking ''b_4'' ''annisse-001'' ''pending'' [] ''2024-02-02'' 1"
  have t: "newDate isoDateParse ''2024-02-05'' = Some 1707091200000"
    by code_simp
  have u: "newDate isoDateParse ''2024-02-02'' = Some 1706832000000"
    by code_simp
  have n: "newDate isoDateParse ''next week'' = None"
    by code_simp
  have f2: "checkIn ?b2 = Some ''2024-02-05'' \<and> checkOut ?b2 = Some ''2024-02-02''"
    by (simp add: exampleBooking_def)
  have f3: "checkIn ?b3 = Some ''next week'' \<and> checkOut ?b3 = Some ''2024-02-02''"
    by (simp add: exampleBooking_def)
  have f4: "checkIn ?b4 = Some []"
    by (simp add: exampleBooking_def)
  have r: "\<exists>t u. newDate isoDateParse ''2024-02-05'' = Some t \<and>
      newDate isoDateParse ''2024-02-02'' = Some u \<and> u < t"
    using t u by simp
  have a: "hasCapacityForBooking utcZone isoDateParse ?s ''annisse-001'' ?b2"
    using f2 r unusable_dates_are_admitted [where b = ?b2 and ci = "''2024-02-05''"
        and co = "''2024-02-02''" and parse = isoDateParse and zone = utcZone and s = ?s and kid = "''annisse-001''"]
    by simp
  have b: "hasCapacityForBooking utcZone isoDateParse ?s ''annisse-001'' ?b3"
    using f3 n unusable_dates_are_admitted [where b = ?b3 and ci = "''next week''"
        and co = "''2024-02-02''" and parse = isoDateParse and zone = utcZone and s = ?s and kid = "''annisse-001''"]
    by simp
  have c: "\<not> hasCapacityForBooking utcZone isoDateParse (browserStore [] []) ''annisse-001'' ?b4"
    using f4 unusable_dates_are_admitted [where b = ?b4 and ci = "''2024-02-05''"
        and co = "''2024-02-02''" and parse = isoDateParse and zone = utcZone and s = "browserStore [] []"
        and kid = "''annisse-001''"]
    by simp
  show ?thesis
    using a b c by simp
qed

subsection \<open>Time zones\<close>

text \<open>
  In a zone whose offset never changes the days are those of UTC. Across a change of the
  offset they are not: in the zone \<open>cetSpring2024\<close> the range from 2024-03-30 to
  2024-04-02 names 2024-03-31 twice and never reaches 2024-04-02.
\<close>

lemma setDateNext_fixed_offset: "setDateNext (\<lambda>t isUTC. off) d = d + msPerDay"
  by (simp add: setDateNext_def UTC_def LocalTime_def msPerDay_def)

lemma eachDayLoop_fixed_offset:
  "eachDayLoop (\<lambda>t isUTC. off) d endT res = eachDayLoop utcZone d endT res"
proof (induction "\<lambda>(t::int) (isUTC::bool). off" d endT res rule: eachDayLoop.induct)
  case (1 d endT res)
  have u: "utcZone = (\<lambda>t isUTC. 0)"
    by (simp add: utcZone_def fun_eq_iff)
  show ?case
    using 1
    by (subst eachDayLoop.simps, subst (2) eachDayLoop.simps)
      (simp add: setDateNext_fixed_offset u)
qed

lemma eachDay_fixed_offset:
  "eachDay (\<lambda>t isUTC. off) parse a b = eachDay utcZone parse a b"
  by (simp add: eachDay_def eachDayLoop_fixed_offset split: option.splits)

lemma eachDay_spring_forward:
  "eachDay cetSpring2024 isoDateParse ''2024-03-30'' ''2024-04-02''
     = [''2024-03-30'', ''2024-03-31'', ''2024-03-31'', ''2024-04-01'']"
  by code_simp


subsection \<open>The booked count of a day\<close>

lemma overlapsDay_inInterval: "overlapsDay (checkIn r) (checkOut r) day = inInterval r day"
  by (auto simp: overlapsDay_def inInterval_def split: option.splits)

lemma staysLoop_sum:
  "staysLoop cs day acc =
     acc + (\<Sum>c\<leftarrow>cs. if \<not> isCheckedOut (status c) \<and> inInterval c day
                     then countOr1 (catCount c) else 0)"
  by (induction cs arbitrary: acc) (simp_all add: overlapsDay_inInterval)

lemma bookingsLoop_sum:
  "bookingsLoop bs day acc =
     acc + (\<Sum>b\<leftarrow>bs. if statusOrPending (status b) = ''precheck'' \<and> inInterval b day
                     then countOr1 (catCount b) else 0)"
  by (induction bs arbitrary: acc) (simp_all add: overlapsDay_inInterval)

lemma sum_list_filter_if:
  "(\<Sum>x\<leftarrow>filter P xs. f x) = (\<Sum>x\<leftarrow>xs. if P x then f x else (0::int))"
  by (induction xs) simp_all

lemma stays_part:
  "staysLoop (listCheckinsForKennel s kid) day 0 = staysOccupancy s kid day"
  unfolding staysOccupancy_def staysLoop_sum listCheckinsForKennel_def sum_list_filter_if
  by (auto intro!: arg_cong[where f = sum_list] simp: stayShare_def ofTenant_def isCheckedOut_def)

lemma inInterval_status [simp]: "inInterval (r\<lparr>status := v\<rparr>) day = inInterval r day"
  by (cases "checkIn r") (simp_all add: inInterval_def)

lemma bookings_part:
  "bookingsLoop (listBookingsForKennel s kid) day acc = acc + bookingsOccupancy s kid day"
  unfolding bookingsOccupancy_def bookingsLoop_sum listBookingsForKennel_def sum_list_filter_if map_map comp_def
  by (auto intro!: arg_cong[where f = sum_list]
      simp: bookingShare_def ofTenant_def statusOrPending_def split: option.splits)

lemma bookedOn_occupancy:
  "bookedOn (listCheckinsForKennel s kid) (listBookingsForKennel s kid) day = occupancy s kid day"
  by (simp add: bookedOn_def occupancy_def stays_part bookings_part)

lemma getCapacityForRange_occupancy:
  "getCapacityForRange zone parse s kid a b =
     map (\<lambda>day. \<lparr>date = day,
                 booked = min (occupancy s kid day) FIXED_DAILY_CAPACITY,
                 capacity = FIXED_DAILY_CAPACITY,
                 free = max 0 (FIXED_DAILY_CAPACITY - min (occupancy s kid day) FIXED_DAILY_CAPACITY)\<rparr>)
       (eachDay zone parse a b)"
  by (simp add: getCapacityForRange_def capacityDayOf_def bookedOn_occupancy Let_def)

lemma sum_list_nonneg_int: "(\<forall>x\<in>set xs. 0 \<le> f x) \<Longrightarrow> (0::int) \<le> (\<Sum>x\<leftarrow>xs. f x)"
  by (induction xs) auto

lemma occupancy_nonneg:
  assumes "\<forall>x\<in>set (loadArray asCheckins s CHECKIN_KEY). 0 \<le> countOr1 (catCount x)"
    and "\<forall>x\<in>set (loadArray asBookings s BOOKING_KEY). 0 \<le> countOr1 (catCount x)"
  shows "0 \<le> occupancy s kid day"
  unfolding occupancy_def staysOccupancy_def bookingsOccupancy_def using assms
  by (intro add_nonneg_nonneg sum_list_nonneg_int) (auto simp: stayShare_def bookingShare_def)

subsection \<open>Bounds of a capacity day\<close>

text \<open>
  What holds of every day \<open>getCapacityForRange\<close> returns, and what holds in addition
  when no stored stay or booking has a negative number of cats.
\<close>

lemma capacity_day_bounds:
  assumes "cd \<in> set (getCapacityForRange zone parse s kid a b)"
  shows "capacity cd = FIXED_DAILY_CAPACITY \<and> FIXED_DAILY_CAPACITY = 6 \<and>
     booked cd \<le> capacity cd \<and> 0 \<le> free cd \<and> free cd = capacity cd - booked cd \<and>
     ((\<forall>x\<in>set (loadArray asCheckins s CHECKIN_KEY). 0 \<le> countOr1 (catCount x)) \<and>
      (\<forall>x\<in>set (loadArray asBookings s BOOKING_KEY). 0 \<le> countOr1 (catCount x))
        \<longrightarrow> 0 \<le> booked cd \<and> free cd \<le> capacity cd)"
proof -
  from assms obtain day where cd: "cd = \<lparr>date = day,
                 booked = min (occupancy s kid day) FIXED_DAILY_CAPACITY,
                 capacity = FIXED_DAILY_CAPACITY,
                 free = max 0 (FIXED_DAILY_CAPACITY - min (occupancy s kid day) FIXED_DAILY_CAPACITY)\<rparr>"
    unfolding getCapacityForRange_occupancy by auto
  have "0 \<le> occupancy s kid day"
    if "(\<forall>x\<in>set (loadArray asCheckins s CHECKIN_KEY). 0 \<le> countOr1 (catCount x)) \<and>
      (\<forall>x\<in>set (loadArray asBookings s BOOKING_KEY). 0 \<le> countOr1 (catCount x))"
    using that occupancy_nonneg by blast
  then show ?thesis
    unfolding cd by (auto simp: FIXED_DAILY_CAPACITY_def)
qed

text \<open>
  A negative number of cats reaches the store through the module's own functions: the
  owner's form with the text \<^verbatim>\<open>"-3"\<close>, then \<open>acceptBooking\<close>.
\<close>

lemma negative_count_from_owner_form:
  "loadArray asBookings
     (snd (acceptBooking
        (snd (createBookingRequest decimalNumber ''lx1'' ''k3f9aa'' ''2024-01-05T09:30:00.000Z''
           (browserStore [] []) (examplePayload ''-3'' ''1'') None))
        ''b_lx1_k3f9aa'')) BOOKING_KEY
   = [\<lparr>recId = ''b_lx1_k3f9aa'', kennelId = ''annisse-001'', status = Some ''precheck'',
       createdAt = ''2024-01-05T09:30:00.000Z'', source = Some Owner,
       checkIn = Some ''2024-02-01'', checkOut = Some ''2024-02-03'', petName = Some ''Mis'',
       petNames = Some ''Mis'', catCount = Some (- 3), roomCount = Some 1,
       ownerName = Some ''Ida'', ownerPhone = Some ''12 34 56 78'',
       ownerEmail = Some ''ida@example.org'', note' = Some [], indoorPet = Some Inde,
       food = Some [], medicine = Some [], allowSocialMedia = Some False\<rparr>]"
  by code_simp

text \<open>
  C4. The claim: every day returned by \<open>getCapacityForRange\<close> has the capacity 6, a booked
  count capped at the capacity, and \<open>0 \<le> free \<le> capacity\<close> with
  \<open>free = capacity - booked\<close>. The code caps the sum from above, floors \<open>free\<close> at 0 and
  turns an absent or zero count into 1, but lets a negative count through: the booking made
  by the owner's form from the text \<^verbatim>\<open>"-3"\<close>, once accepted, gives a day with
  \<open>booked = -3\<close> and \<open>free = 9\<close> of 6 places, and a candidate with 9 cats is admitted
  on it.
\<close>

theorem negative_count_breaks_bounds:
  "getCapacityForRange utcZone isoDateParse
     (snd (acceptBooking
        (snd (createBookingRequest decimalNumber ''lx1'' ''k3f9aa'' ''2024-01-05T09:30:00.000Z''
           (browserStore [] []) (examplePayload ''-3'' ''1'') None))
        ''b_lx1_k3f9aa''))
     ''annisse-001'' ''2024-02-01'' ''2024-02-01''
   = [\<lparr>date = ''2024-02-01'', booked = - 3, capacity = 6, free = 9\<rparr>] \<and>
   getCapacityForRange utcZone isoDateParse
     (browserStore
        [exampleBooking ''b_1'' ''annisse-001'' ''precheck'' ''2024-02-01'' ''2024-02-03'' (- 3)] [])
     ''annisse-001'' ''2024-02-01'' ''2024-02-01''
   = [\<lparr>date = ''2024-02-01'', booked = - 3, capacity = 6, free = 9\<rparr>] \<and>
   hasCapacityForBooking utcZone isoDateParse
     (browserStore
        [exampleBooking ''b_1'' ''annisse-001'' ''precheck'' ''2024-02-01'' ''2024-02-03'' (- 3)] [])
     ''annisse-001''
     (exampleBooking ''b_2'' ''annisse-001'' ''pending'' ''2024-02-01'' ''2024-02-02'' 9) = True"
  by code_simp

subsection \<open>The check-out day\<close>

lemma inInterval_jan:
  assumes "checkIn r = Some ''2024-01-10''" "checkOut r = Some ''2024-01-12''"
  shows "inInterval r ''2024-01-10''" "inInterval r ''2024-01-11''" "\<not> inInterval r ''2024-01-12''"
  using assms by (simp_all add: inInterval_def)

lemma staysOccupancy_insert:
  assumes "loadArray asCheckins s CHECKIN_KEY = xs @ stay # ys"
    and "loadArray asCheckins s0 CHECKIN_KEY = xs @ ys"
  shows "staysOccupancy s kid day = staysOccupancy s0 kid day + stayShare kid day stay"
  using assms by (simp add: staysOccupancy_def)

lemma bookingsOccupancy_insert:
  assumes "loadArray asBookings s BOOKING_KEY = us @ b # vs"
    and "loadArray asBookings s0 BOOKING_KEY = us @ vs"
  shows "bookingsOccupancy s kid day = bookingsOccupancy s0 kid day + bookingShare kid day b"
  using assms by (simp add: bookingsOccupancy_def)

lemma bookingsOccupancy_cong:
  "loadArray asBookings s0 BOOKING_KEY = loadArray asBookings s BOOKING_KEY \<Longrightarrow>
     bookingsOccupancy s0 kid day = bookingsOccupancy s kid day"
  by (simp add: bookingsOccupancy_def)

lemma staysOccupancy_cong:
  "loadArray asCheckins s0 CHECKIN_KEY = loadArray asCheckins s CHECKIN_KEY \<Longrightarrow>
     staysOccupancy s0 kid day = staysOccupancy s kid day"
  by (simp add: staysOccupancy_def)

lemma booked_of_days:
  "map booked (getCapacityForRange zone parse s kid a b) =
     map (\<lambda>d. min (bookedOn (listCheckinsForKennel s kid) (listBookingsForKennel s kid) d)
                  FIXED_DAILY_CAPACITY)
       (eachDay zone parse a b)"
  by (simp add: getCapacityForRange_def capacityDayOf_def Let_def comp_def)

text \<open>
  C3 as stated fails: a stay with status \<^verbatim>\<open>"checkedOut"\<close> is not checked_out by its
  status string, and with check-in 2024-01-10 and check-out 2024-01-12 it adds nothing to
  2024-01-10 and 2024-01-11: the loop skips that status too.
\<close>

theorem legacy_stay_adds_nothing:
  "status (exampleStay ''c_1'' ''tenant'' ''checkedOut'' ''2024-01-10'' ''2024-01-12'' 2)
     = Some ''checkedOut'' \<and>
   getCapacityForRange utcZone isoDateParse
     (browserStore [] [exampleStay ''c_1'' ''tenant'' ''checkedOut'' ''2024-01-10'' ''2024-01-12'' 2])
     ''tenant'' ''2024-01-10'' ''2024-01-12''
   = [\<lparr>date = ''2024-01-10'', booked = 0, capacity = 6, free = 6\<rparr>,
      \<lparr>date = ''2024-01-11'', booked = 0, capacity = 6, free = 6\<rparr>,
      \<lparr>date = ''2024-01-12'', booked = 0, capacity = 6, free = 6\<rparr>]"
  by code_simp

text \<open>
  C3 (amended). A stored stay of the tenant whose status is neither \<^verbatim>\<open>"checked_out"\<close>
  nor \<^verbatim>\<open>"checkedOut"\<close>, or a stored booking of the tenant in status
  \<^verbatim>\<open>"precheck"\<close>, with check-in 2024-01-10 and check-out 2024-01-12: compared with the
  store without that record, the booked count before capping is higher by its number of
  cats (1 when absent or zero) on 2024-01-10 and on 2024-01-11 and the same on 2024-01-12.
  The booked count of a returned day is that count, capped at the capacity. In the zone
  UTC, with one accepted booking of 4 cats from 2024-02-01 to 2024-02-03 the range
  2024-02-01..2024-02-03 has 4 booked and 2 free on the first two days and 0 booked and 6
  free on 2024-02-03; with a stay of 2 cats and an accepted booking of 3 cats, both from
  2024-01-10 to 2024-01-12, the range 2024-01-10..2024-01-12 has 5 booked on the first two
  days and 0 on 2024-01-12.
\<close>

theorem checkout_day_not_counted:
  "(loadArray asCheckins s CHECKIN_KEY = xs @ stay # ys \<and>
    loadArray asCheckins s0 CHECKIN_KEY = xs @ ys \<and>
    loadArray asBookings s0 BOOKING_KEY = loadArray asBookings s BOOKING_KEY \<and>
    (kid = [] \<or> kennelId stay = kid) \<and>
    checkIn stay = Some ''2024-01-10'' \<and> checkOut stay = Some ''2024-01-12'' \<and>
    status stay \<noteq> Some ''checked_out'' \<and> status stay \<noteq> Some ''checkedOut'' \<longrightarrow>
      bookedOn (listCheckinsForKennel s kid) (listBookingsForKennel s kid) ''2024-01-10''
        = bookedOn (listCheckinsForKennel s0 kid) (listBookingsForKennel s0 kid) ''2024-01-10''
          + countOr1 (catCount stay) \<and>
      bookedOn (listCheckinsForKennel s kid) (listBookingsForKennel s kid) ''2024-01-11''
        = bookedOn (listCheckinsForKennel s0 kid) (listBookingsForKennel s0 kid) ''2024-01-11''
          + countOr1 (catCount stay) \<and>
      bookedOn (listCheckinsForKennel s kid) (listBookingsForKennel s kid) ''2024-01-12''
        = bookedOn (listCheckinsForKennel s0 kid) (listBookingsForKennel s0 kid) ''2024-01-12'') \<and>
   (loadArray asBookings t BOOKING_KEY = us @ bk # vs \<and>
    loadArray asBookings t0 BOOKING_KEY = us @ vs \<and>
    loadArray asCheckins t0 CHECKIN_KEY = loadArray asCheckins t CHECKIN_KEY \<and>
    (kid = [] \<or> kennelId bk = kid) \<and>
    checkIn bk = Some ''2024-01-10'' \<and> checkOut bk = Some ''2024-01-12'' \<and>
    status bk = Some ''precheck'' \<longrightarrow>
      bookedOn (listCheckinsForKennel t kid) (listBookingsForKennel t kid) ''2024-01-10''
        = bookedOn (listCheckinsForKennel t0 kid) (listBookingsForKennel t0 kid) ''2024-01-10''
          + countOr1 (catCount bk) \<and>
      bookedOn (listCheckinsForKennel t kid) (listBookingsForKennel t kid) ''2024-01-11''
        = bookedOn (listCheckinsForKennel t0 kid) (listBookingsForKennel t0 kid) ''2024-01-11''
          + countOr1 (catCount bk) \<and>
      bookedOn (listCheckinsForKennel t kid) (listBookingsForKennel t kid) ''2024-01-12''
        = bookedOn (listCheckinsForKennel t0 kid) (listBookingsForKennel t0 kid) ''2024-01-12'') \<and>
   map booked (getCapacityForRange zone parse s kid a b) =
     map (\<lambda>d. min (bookedOn (listCheckinsForKennel s kid) (listBookingsForKennel s kid) d)
                  FIXED_DAILY_CAPACITY)
       (eachDay zone parse a b) \<and>
   getCapacityForRange utcZone isoDateParse
     (browserStore [exampleBooking ''b_1'' ''tenant'' ''precheck'' ''2024-02-01'' ''2024-02-03'' 4] [])
     ''tenant'' ''2024-02-01'' ''2024-02-03''
   = [\<lparr>date = ''2024-02-01'', booked = 4, capacity = 6, free = 2\<rparr>,
      \<lparr>date = ''2024-02-02'', booked = 4, capacity = 6, free = 2\<rparr>,
      \<lparr>date = ''2024-02-03'', booked = 0, capacity = 6, free = 6\<rparr>] \<and>
   getCapacityForRange utcZone isoDateParse
     (browserStore [exampleBooking ''b_1'' ''tenant'' ''precheck'' ''2024-01-10'' ''2024-01-12'' 3]
        [exampleStay ''c_1'' ''tenant'' ''checked_in'' ''2024-01-10'' ''2024-01-12'' 2])
     ''tenant'' ''2024-01-10'' ''2024-01-12''
   = [\<lparr>date = ''2024-01-10'', booked = 5, capacity = 6, free = 1\<rparr>,
      \<lparr>date = ''2024-01-11'', booked = 5, capacity = 6, free = 1\<rparr>,
      \<lparr>date = ''2024-01-12'', booked = 0, capacity = 6, free = 6\<rparr>]"
proof -
  have ex1: "getCapacityForRange utcZone isoDateParse
     (browserStore [exampleBooking ''b_1'' ''tenant'' ''precheck'' ''2024-02-01'' ''2024-02-03'' 4] [])
     ''tenant'' ''2024-02-01'' ''2024-02-03''
   = [\<lparr>date = ''2024-02-01'', booked = 4, capacity = 6, free = 2\<rparr>,
      \<lparr>date = ''2024-02-02'', booked = 4, capacity = 6, free = 2\<rparr>,
      \<lparr>date = ''2024-02-03'', booked = 0, capacity = 6, free = 6\<rparr>]"
    by code_simp
  have ex2: "getCapacityForRange utcZone isoDateParse
     (browserStore [exampleBooking ''b_1'' ''tenant'' ''precheck'' ''2024-01-10'' ''2024-01-12'' 3]
        [exampleStay ''c_1'' ''tenant'' ''checked_in'' ''2024-01-10'' ''2024-01-12'' 2])
     ''tenant'' ''2024-01-10'' ''2024-01-12''
   = [\<lparr>date = ''2024-01-10'', booked = 5, capacity = 6, free = 1\<rparr>,
      \<lparr>date = ''2024-01-11'', booked = 5, capacity = 6, free = 1\<rparr>,
      \<lparr>date = ''2024-01-12'', booked = 0, capacity = 6, free = 6\<rparr>]"
    by code_simp
  have st: "bookedOn (listCheckinsForKennel s kid) (listBookingsForKennel s kid) day
      = bookedOn (listCheckinsForKennel s0 kid) (listBookingsForKennel s0 kid) day
        + (if inInterval stay day then countOr1 (catCount stay) else 0)"
    if "loadArray asCheckins s CHECKIN_KEY = xs @ stay # ys"
      "loadArray asCheckins s0 CHECKIN_KEY = xs @ ys"
      "loadArray asBookings s0 BOOKING_KEY = loadArray asBookings s BOOKING_KEY"
      "kid = [] \<or> kennelId stay = kid"
      "status stay \<noteq> Some ''checked_out''" "status stay \<noteq> Some ''checkedOut''"
    for day
    using that
    by (simp add: bookedOn_occupancy occupancy_def staysOccupancy_insert[OF that(1,2)]
        bookingsOccupancy_cong[OF that(3)] stayShare_def ofTenant_def)
  have bk: "bookedOn (listCheckinsForKennel t kid) (listBookingsForKennel t kid) day
      = bookedOn (listCheckinsForKennel t0 kid) (listBookingsForKennel t0 kid) day
        + (if inInterval bk day then countOr1 (catCount bk) else 0)"
    if "loadArray asBookings t BOOKING_KEY = us @ bk # vs"
      "loadArray asBookings t0 BOOKING_KEY = us @ vs"
      "loadArray asCheckins t0 CHECKIN_KEY = loadArray asCheckins t CHECKIN_KEY"
      "kid = [] \<or> kennelId bk = kid"
      "status bk = Some ''precheck''"
    for day
    using that
    by (simp add: bookedOn_occupancy occupancy_def bookingsOccupancy_insert[OF that(1,2)]
        staysOccupancy_cong[OF that(3)] bookingShare_def ofTenant_def)
  show ?thesis
    using ex1 ex2 by (simp add: st bk inInterval_jan booked_of_days)
qed

theorem checkout_day_not_counted_witness:
  "bookedOn
     (listCheckinsForKennel
        (browserStore [] [exampleStay ''c_1'' ''tenant'' ''checked_in'' ''2024-01-10'' ''2024-01-12'' 2])
        ''tenant'')
     (listBookingsForKennel
        (browserStore [] [exampleStay ''c_1'' ''tenant'' ''checked_in'' ''2024-01-10'' ''2024-01-12'' 2])
        ''tenant'')
     ''2024-01-11'' = 2 \<and>
   bookedOn
     (listCheckinsForKennel
        (browserStore [] [exampleStay ''c_1'' ''tenant'' ''checked_in'' ''2024-01-10'' ''2024-01-12'' 2])
        ''tenant'')
     (listBookingsForKennel
        (browserStore [] [exampleStay ''c_1'' ''tenant'' ''checked_in'' ''2024-01-10'' ''2024-01-12'' 2])
        ''tenant'')
     ''2024-01-12'' = 0 \<and>
   bookedOn
     (listCheckinsForKennel
        (browserStore [exampleBooking ''b_1'' ''tenant'' ''precheck'' ''2024-01-10'' ''2024-01-12'' 3] [])
        ''tenant'')
     (listBookingsForKennel
        (browserStore [exampleBooking ''b_1'' ''tenant'' ''precheck'' ''2024-01-10'' ''2024-01-12'' 3] [])
        ''tenant'')
     ''2024-01-10'' = 3 \<and>
   bookedOn
     (listCheckinsForKennel
        (browserStore [exampleBooking ''b_1'' ''tenant'' ''precheck'' ''2024-01-10'' ''2024-01-12'' 3] [])
        ''tenant'')
     (listBookingsForKennel
        (browserStore [exampleBooking ''b_1'' ''tenant'' ''precheck'' ''2024-01-10'' ''2024-01-12'' 3] [])
        ''tenant'')
     ''2024-01-12'' = 0"
proof -
  let ?c = "exampleStay ''c_1'' ''tenant'' ''checked_in'' ''2024-01-10'' ''2024-01-12'' 2"
  let ?b = "exampleBooking ''b_1'' ''tenant'' ''precheck'' ''2024-01-10'' ''2024-01-12'' 3"
  let ?s = "browserStore [] [?c]"
  let ?t = "browserStore [?b] []"
  let ?e = "browserStore [] []"
  have c: "loadArray asCheckins ?s CHECKIN_KEY = [] @ ?c # [] \<and>
      loadArray asCheckins ?e CHECKIN_KEY = [] @ [] \<and>
      loadArray asBookings ?e BOOKING_KEY = loadArray asBookings ?s BOOKING_KEY \<and>
      (''tenant'' = [] \<or> kennelId ?c = ''tenant'') \<and>
      checkIn ?c = Some ''2024-01-10'' \<and> checkOut ?c = Some ''2024-01-12'' \<and>
      status ?c \<noteq> Some ''checked_out'' \<and> status ?c \<noteq> Some ''checkedOut''"
    unfolding loadArray_browserStore
    by (simp add: exampleStay_def exampleBooking_def BookingRecord.defs)
  have b: "loadArray asBookings ?t BOOKING_KEY = [] @ ?b # [] \<and>
      loadArray asBookings ?e BOOKING_KEY = [] @ [] \<and>
      loadArray asCheckins ?e CHECKIN_KEY = loadArray asCheckins ?t CHECKIN_KEY \<and>
      (''tenant'' = [] \<or> kennelId ?b = ''tenant'') \<and>
      checkIn ?b = Some ''2024-01-10'' \<and> checkOut ?b = Some ''2024-01-12'' \<and>
      status ?b = Some ''precheck''"
    unfolding loadArray_browserStore by (simp add: exampleBooking_def)
  have n: "countOr1 (catCount ?c) = 2" "countOr1 (catCount ?b) = 3"
    by (simp_all add: exampleStay_def exampleBooking_def BookingRecord.defs countOr1_def)
  have z: "bookedOn (listCheckinsForKennel ?e ''tenant'') (listBookingsForKennel ?e ''tenant'') day
      = 0" for day
    unfolding bookedOn_occupancy occupancy_def staysOccupancy_def bookingsOccupancy_def
      loadArray_browserStore
    by simp
  note inst = checkout_day_not_counted [where s = ?s and ?s0.0 = ?e and xs = "[]" and ys = "[]"
      and stay = ?c and kid = "''tenant''" and t = ?t and ?t0.0 = ?e and us = "[]"
      and vs = "[]" and bk = ?b and zone = utcZone and parse = isoDateParse
      and a = "''2024-01-10''" and b = "''2024-01-12''"]
  have 1: "bookedOn (listCheckinsForKennel ?s ''tenant'') (listBookingsForKennel ?s ''tenant'')
      ''2024-01-11''
      = bookedOn (listCheckinsForKennel ?e ''tenant'') (listBookingsForKennel ?e ''tenant'')
          ''2024-01-11'' + countOr1 (catCount ?c)"
    "bookedOn (listCheckinsForKennel ?s ''tenant'') (listBookingsForKennel ?s ''tenant'')
      ''2024-01-12''
      = bookedOn (listCheckinsForKennel ?e ''tenant'') (listBookingsForKennel ?e ''tenant'')
          ''2024-01-12''"
    using inst c by blast+
  have 2: "bookedOn (listCheckinsForKennel ?t ''tenant'') (listBookingsForKennel ?t ''tenant'')
      ''2024-01-10''
      = bookedOn (listCheckinsForKennel ?e ''tenant'') (listBookingsForKennel ?e ''tenant'')
          ''2024-01-10'' + countOr1 (catCount ?b)"
    "bookedOn (listCheckinsForKennel ?t ''tenant'') (listBookingsForKennel ?t ''tenant'')
      ''2024-01-12''
      = bookedOn (listCheckinsForKennel ?e ''tenant'') (listBookingsForKennel ?e ''tenant'')
          ''2024-01-12''"
    using inst b by blast+
  show ?thesis
    unfolding 1 2 z n by simp
qed

subsection \<open>The admission check\<close>

text \<open>What the check computes: every enumerated day must take the candidate's cats.\<close>

lemma hasCapacityForBooking_days:
  assumes "checkIn b = Some ci" "checkOut b = Some co" "ci \<noteq> []" "co \<noteq> []"
  shows "hasCapacityForBooking zone parse s kid b =
     list_all (\<lambda>d. min (occupancy s kid d) FIXED_DAILY_CAPACITY + countOr1 (catCount b)
                   \<le> FIXED_DAILY_CAPACITY)
       (eachDay zone parse ci co)"
  using assms
  by (simp add: hasCapacityForBooking_def getCapacityForRange_occupancy Let_def list.pred_map
      comp_def)

text \<open>
  C2. The claim: \<open>hasCapacityForBooking\<close> returns false exactly when a day the candidate
  occupies would be pushed above the capacity. The code tests every day from check-in to
  check-out, the check-out day included, although a booking does not occupy its check-out
  day (\<open>overlapsDay\<close>). Six cats arrive on 2024-02-03; a candidate with one cat from
  2024-02-01 to 2024-02-03 occupies 2024-02-01 and 2024-02-02, both empty, and is refused
  because of 2024-02-03. Asked in the other order, the same two bookings are both admitted.
\<close>

theorem admission_counts_checkout_day:
  "hasCapacityForBooking utcZone isoDateParse
     (browserStore [exampleBooking ''b_1'' ''annisse-001'' ''precheck'' ''2024-02-03'' ''2024-02-05'' 6] [])
     ''annisse-001''
     (exampleBooking ''b_2'' ''annisse-001'' ''pending'' ''2024-02-01'' ''2024-02-03'' 1) = False \<and>
   getCapacityForRange utcZone isoDateParse
     (browserStore [exampleBooking ''b_1'' ''annisse-001'' ''precheck'' ''2024-02-03'' ''2024-02-05'' 6] [])
     ''annisse-001'' ''2024-02-01'' ''2024-02-03''
   = [\<lparr>date = ''2024-02-01'', booked = 0, capacity = 6, free = 6\<rparr>,
      \<lparr>date = ''2024-02-02'', booked = 0, capacity = 6, free = 6\<rparr>,
      \<lparr>date = ''2024-02-03'', booked = 6, capacity = 6, free = 0\<rparr>] \<and>
   overlapsDay (Some ''2024-02-01'') (Some ''2024-02-03'') ''2024-02-03'' = False \<and>
   hasCapacityForBooking utcZone isoDateParse
     (browserStore [exampleBooking ''b_2'' ''annisse-001'' ''precheck'' ''2024-02-01'' ''2024-02-03'' 1] [])
     ''annisse-001''
     (exampleBooking ''b_1'' ''annisse-001'' ''pending'' ''2024-02-03'' ''2024-02-05'' 6) = True"
  by code_simp

subsection \<open>Turning a booking into a stay\<close>

lemma saveArray_env [simp]:
  "hasWindow (saveArray enc s k v) = hasWindow s"
  "accessDenied (saveArray enc s k v) = accessDenied s"
  "accepts (saveArray enc s k v) = accepts s"
  by (simp_all add: saveArray_def setItem_def)

lemma saveArray_log:
  "setItemLog (saveArray enc s k v) =
     (if isBrowser s \<and> \<not> accessDenied s then setItemLog s @ [k] else setItemLog s)"
  by (simp add: saveArray_def setItem_def)

lemma loadArray_saveArray:
  "loadArray cast (saveArray enc s k v) k' =
     (if isBrowser s \<and> \<not> accessDenied s \<and> accepts s k \<and> k' = k
      then cast (toJSON (enc v))
      else loadArray cast s k')"
  by (simp add: loadArray_def loadArray_try_def saveArray_def setItem_def isBrowser_def
      getItem_def JSON_parse_def JSON_stringify_def)

lemma loadArray_nonempty:
  "loadArray cast s k \<noteq> [] \<Longrightarrow> isBrowser s \<and> \<not> accessDenied s"
  by (auto simp: loadArray_def loadArray_try_def getItem_def split: if_splits)

lemma find_first_index:
  "find p xs = Some x \<Longrightarrow>
     \<exists>i<length xs. xs ! i = x \<and> p x \<and> (\<forall>j<i. \<not> p (xs ! j)) \<and> findIndexFrom p xs k = k + int i"
proof (induction xs arbitrary: k)
  case Nil
  then show ?case by simp
next
  case (Cons a xs)
  show ?case
  proof (cases "p a")
    case True
    with Cons.prems show ?thesis by (intro exI[of _ 0]) simp
  next
    case False
    with Cons.prems have "find p xs = Some x" by simp
    from Cons.IH[OF this, of "k + 1"] obtain i where
      i: "i < length xs" "xs ! i = x" "p x" "\<forall>j<i. \<not> p (xs ! j)"
         "findIndexFrom p xs (k + 1) = k + 1 + int i"
      by blast
    show ?thesis
      using i False by (intro exI[of _ "Suc i"]) (auto simp: less_Suc_eq_0_disj)
  qed
qed

lemma find_update_first:
  "i < length xs \<Longrightarrow> \<forall>j<i. \<not> p (xs ! j) \<Longrightarrow> p y \<Longrightarrow> find p (xs[i := y]) = Some y"
  by (subst find_Some_iff) (intro exI[of _ i], auto)

lemma sum_list_map_update:
  "i < length xs \<Longrightarrow> (\<Sum>x\<leftarrow>xs[i := y]. g x) = (\<Sum>x\<leftarrow>xs. g x) - g (xs ! i) + (g y :: int)"
proof (induction xs arbitrary: i)
  case Nil
  then show ?case by simp
next
  case (Cons a xs)
  then show ?case by (cases i) simp_all
qed

lemma applyOverrides_empty [simp]: "applyOverrides emptyOverrides r = r"
  by (simp add: applyOverrides_def emptyOverrides_def orElse_def)

lemma spread_booking:
  "applyOverrides emptyOverrides
     (BookingRecord.extend (b\<lparr>recId := ident, status := Some ''checked_in''\<rparr>)
        (CheckinRecord.fields None))
   = stayOfBooking ident b"
  by (cases b) (simp add: stayOfBooking_def BookingRecord.defs CheckinRecord.defs)

lemma createCheckin_result:
  assumes stored: "find (\<lambda>x. recId x = recId b) (loadArray asBookings s BOOKING_KEY) = Some b"
  shows "fst (createCheckinFromBooking stamp rnd s b emptyOverrides) = stayOfBooking (newId ''c'' stamp rnd) b"
    and "loadArray asCheckins (snd (createCheckinFromBooking stamp rnd s b emptyOverrides)) CHECKIN_KEY
      = (if accepts s CHECKIN_KEY then loadArray asCheckins s CHECKIN_KEY @ [stayOfBooking (newId ''c'' stamp rnd) b]
         else loadArray asCheckins s CHECKIN_KEY)"
    and "loadArray asBookings (snd (createCheckinFromBooking stamp rnd s b emptyOverrides)) BOOKING_KEY
      = (if accepts s BOOKING_KEY then (loadArray asBookings s BOOKING_KEY)
            [nat (findIndex (\<lambda>x. recId x = recId b) (loadArray asBookings s BOOKING_KEY))
               := b\<lparr>status := Some ''converted''\<rparr>]
         else loadArray asBookings s BOOKING_KEY)"
    and "setItemLog (snd (createCheckinFromBooking stamp rnd s b emptyOverrides))
      = setItemLog s @ [CHECKIN_KEY, BOOKING_KEY]"
proof -
  let ?bs = "loadArray asBookings s BOOKING_KEY"
  let ?cs = "loadArray asCheckins s CHECKIN_KEY"
  let ?r = "stayOfBooking (newId ''c'' stamp rnd) b"
  let ?s1 = "saveArray JCheckins s CHECKIN_KEY (?cs @ [?r])"
  from stored have ne: "?bs \<noteq> []" by auto
  then have env: "isBrowser s" "\<not> accessDenied s"
    using loadArray_nonempty by blast+
  from find_first_index[OF stored, of 0] obtain i where
    i: "i < length ?bs" "?bs ! i = b" "findIndex (\<lambda>x. recId x = recId b) ?bs = int i"
    by (auto simp: findIndex_def)
  have bs1: "loadArray asBookings (saveArray JCheckins s CHECKIN_KEY v) BOOKING_KEY = ?bs" for v
    by (simp add: loadArray_saveArray storage_keys_distinct)
  have cr: "createCheckinFromBooking stamp rnd s b emptyOverrides
      = (?r, saveArray JBookings ?s1 BOOKING_KEY (?bs[i := b\<lparr>status := Some ''converted''\<rparr>]))"
    using i by (simp add: createCheckinFromBooking_def setBookingStatus_def Let_def bs1
        spread_booking del: applyOverrides_empty)
  show "fst (createCheckinFromBooking stamp rnd s b emptyOverrides) = ?r"
    by (simp add: cr)
  show "loadArray asCheckins (snd (createCheckinFromBooking stamp rnd s b emptyOverrides)) CHECKIN_KEY
      = (if accepts s CHECKIN_KEY then ?cs @ [?r] else ?cs)"
    using env by (simp add: cr loadArray_saveArray storage_keys_distinct isBrowser_def)
  show "loadArray asBookings (snd (createCheckinFromBooking stamp rnd s b emptyOverrides)) BOOKING_KEY
      = (if accepts s BOOKING_KEY then ?bs
            [nat (findIndex (\<lambda>x. recId x = recId b) ?bs) := b\<lparr>status := Some ''converted''\<rparr>]
         else ?bs)"
    using env i by (simp add: cr loadArray_saveArray storage_keys_distinct isBrowser_def)
  show "setItemLog (snd (createCheckinFromBooking stamp rnd s b emptyOverrides))
      = setItemLog s @ [CHECKIN_KEY, BOOKING_KEY]"
    using env by (simp add: cr saveArray_log isBrowser_def)
qed

text \<open>
  An id of \<open>newId\<close> has the prefix, the clock reading and the random string between
  underscores. A prefix and a clock reading in base 36 hold no underscore, so two ids are
  equal only when all three parts are.
\<close>

lemma split_at_underscore:
  assumes "CHR ''_'' \<notin> set xs" "CHR ''_'' \<notin> set ys"
    and "xs @ CHR ''_'' # u = ys @ CHR ''_'' # v"
  shows "xs = ys \<and> u = v"
  using assms
proof (induction xs arbitrary: ys)
  case Nil
  then show ?case by (cases ys) auto
next
  case (Cons x xs)
  then show ?case by (cases ys) auto
qed

lemma newId_inject:
  assumes "CHR ''_'' \<notin> set p" "CHR ''_'' \<notin> set p'" "CHR ''_'' \<notin> set st" "CHR ''_'' \<notin> set st'"
    and "newId p st rn = newId p' st' rn'"
  shows "p = p' \<and> st = st' \<and> rn = rn'"
proof -
  from assms(5) have e: "p @ CHR ''_'' # (st @ CHR ''_'' # rn) = p' @ CHR ''_'' # (st' @ CHR ''_'' # rn')"
    by (simp add: newId_def)
  from split_at_underscore[OF assms(1,2) e]
  have 1: "p = p'" and 2: "st @ CHR ''_'' # rn = st' @ CHR ''_'' # rn'"
    by simp_all
  from split_at_underscore[OF assms(3,4) 2] 1 show ?thesis
    by simp
qed

text \<open>
  C5 as stated fails. When the store rejects the write of the stays (\<^verbatim>\<open>setItem\<close>
  throws and \<open>saveArray\<close> ignores it), no stay is appended. When an earlier stored
  booking has the same id, that one is set to \<^verbatim>\<open>"converted"\<close> and the booking passed,
  the second with its id, stays in \<^verbatim>\<open>"precheck"\<close>.
\<close>

theorem stay_or_status_not_stored:
  "loadArray asCheckins
     (snd (createCheckinFromBooking ''lx1'' ''k3f9aa''
        ((browserStore
            [exampleBooking ''b_1'' ''annisse-001'' ''precheck'' ''2024-02-01'' ''2024-02-03'' 2] [])
           \<lparr>accepts := (\<lambda>key. key \<noteq> CHECKIN_KEY)\<rparr>)
        (exampleBooking ''b_1'' ''annisse-001'' ''precheck'' ''2024-02-01'' ''2024-02-03'' 2)
        emptyOverrides)) CHECKIN_KEY = [] \<and>
   loadArray asBookings
     (snd (createCheckinFromBooking ''lx1'' ''k3f9aa''
        (browserStore
           [exampleBooking ''b_1'' ''annisse-001'' ''cancelled'' ''2024-01-05'' ''2024-01-07'' 1,
            exampleBooking ''b_1'' ''annisse-001'' ''precheck'' ''2024-02-01'' ''2024-02-03'' 2] [])
        (exampleBooking ''b_1'' ''annisse-001'' ''precheck'' ''2024-02-01'' ''2024-02-03'' 2)
        emptyOverrides)) BOOKING_KEY
   = [exampleBooking ''b_1'' ''annisse-001'' ''converted'' ''2024-01-05'' ''2024-01-07'' 1,
      exampleBooking ''b_1'' ''annisse-001'' ''precheck'' ''2024-02-01'' ''2024-02-03'' 2]"
  by code_simp

text \<open>
  C5 (amended). For a booking that is the first stored booking with its id, and no
  overrides, \<open>createCheckinFromBooking\<close> returns a stay that copies the booking's fields,
  with status \<^verbatim>\<open>"checked_in"\<close>, no cage and the id \<open>newId "c"\<close> makes from the clock
  and the random string; that id differs from the id of a booking made by \<open>newId "b"\<close>,
  and from every id \<open>newId\<close> makes from another prefix, clock reading or random string.
  It calls \<^verbatim>\<open>setItem\<close> for the stays and then for the bookings, whatever the first call
  did. When the store accepts the stays, the stay is appended to them; when it accepts the
  bookings, the booking is stored with status \<^verbatim>\<open>"converted"\<close> and the other bookings
  are untouched.
\<close>

theorem checkin_from_booking:
  assumes stored: "find (\<lambda>x. recId x = recId b) (loadArray asBookings s BOOKING_KEY) = Some b"
    and run: "createCheckinFromBooking stamp rnd s b emptyOverrides = (r, s')"
  shows "r = stayOfBooking (newId ''c'' stamp rnd) b \<and>
    (recId b = newId ''b'' stamp0 rnd0 \<longrightarrow> recId r \<noteq> recId b) \<and>
    (CHR ''_'' \<notin> set stamp \<and> CHR ''_'' \<notin> set p \<and> CHR ''_'' \<notin> set st \<and>
     (p \<noteq> ''c'' \<or> st \<noteq> stamp \<or> rn \<noteq> rnd) \<longrightarrow> recId r \<noteq> newId p st rn) \<and>
    (accepts s CHECKIN_KEY \<longrightarrow>
       loadArray asCheckins s' CHECKIN_KEY = loadArray asCheckins s CHECKIN_KEY @ [r]) \<and>
    setItemLog s' = setItemLog s @ [CHECKIN_KEY, BOOKING_KEY] \<and>
    (accepts s BOOKING_KEY \<longrightarrow>
       loadArray asBookings s' BOOKING_KEY
         = (loadArray asBookings s BOOKING_KEY)
             [nat (findIndex (\<lambda>x. recId x = recId b) (loadArray asBookings s BOOKING_KEY))
                := b\<lparr>status := Some ''converted''\<rparr>] \<and>
       find (\<lambda>x. recId x = recId b) (loadArray asBookings s' BOOKING_KEY)
         = Some (b\<lparr>status := Some ''converted''\<rparr>))"
proof -
  let ?bs = "loadArray asBookings s BOOKING_KEY"
  from run have r: "r = fst (createCheckinFromBooking stamp rnd s b emptyOverrides)"
    and s': "s' = snd (createCheckinFromBooking stamp rnd s b emptyOverrides)"
    by simp_all
  note res = createCheckin_result[OF stored, of stamp rnd, folded r s']
  from find_first_index[OF stored, of 0] obtain i where
    i: "i < length ?bs" "\<forall>j<i. recId (?bs ! j) \<noteq> recId b"
       "findIndex (\<lambda>x. recId x = recId b) ?bs = int i"
    by (auto simp: findIndex_def)
  have f: "find (\<lambda>x. recId x = recId b) (?bs[i := b\<lparr>status := Some ''converted''\<rparr>])
      = Some (b\<lparr>status := Some ''converted''\<rparr>)"
    using i by (intro find_update_first) simp_all
  have ident: "recId r = newId ''c'' stamp rnd"
    by (simp add: res(1) stayOfBooking_def)
  have fresh: "recId r \<noteq> recId b" if "recId b = newId ''b'' stamp0 rnd0"
    using that by (simp add: ident newId_def)
  have other: "recId r \<noteq> newId p st rn"
    if "CHR ''_'' \<notin> set stamp \<and> CHR ''_'' \<notin> set p \<and> CHR ''_'' \<notin> set st \<and>
      (p \<noteq> ''c'' \<or> st \<noteq> stamp \<or> rn \<noteq> rnd)"
  proof
    assume "recId r = newId p st rn"
    then have "newId ''c'' stamp rnd = newId p st rn"
      by (simp add: ident)
    from newId_inject[OF _ _ _ _ this] that show False
      by auto
  qed
  show ?thesis
    using fresh other f i(3) by (simp add: res)
qed

theorem checkin_from_booking_witness:
  "fst (createCheckinFromBooking ''lx1'' ''k3f9aa''
          (browserStore
             [exampleBooking ''b_lx0_aaaaaa'' ''annisse-001'' ''precheck'' ''2024-02-01'' ''2024-02-03'' 2] [])
          (exampleBooking ''b_lx0_aaaaaa'' ''annisse-001'' ''precheck'' ''2024-02-01'' ''2024-02-03'' 2)
          emptyOverrides)
   = stayOfBooking ''c_lx1_k3f9aa''
       (exampleBooking ''b_lx0_aaaaaa'' ''annisse-001'' ''precheck'' ''2024-02-01'' ''2024-02-03'' 2) \<and>
   loadArray asCheckins
     (snd (createCheckinFromBooking ''lx1'' ''k3f9aa''
          (browserStore
             [exampleBooking ''b_lx0_aaaaaa'' ''annisse-001'' ''precheck'' ''2024-02-01'' ''2024-02-03'' 2] [])
          (exampleBooking ''b_lx0_aaaaaa'' ''annisse-001'' ''precheck'' ''2024-02-01'' ''2024-02-03'' 2)
          emptyOverrides)) CHECKIN_KEY
   = [stayOfBooking ''c_lx1_k3f9aa''
       (exampleBooking ''b_lx0_aaaaaa'' ''annisse-001'' ''precheck'' ''2024-02-01'' ''2024-02-03'' 2)] \<and>
   loadArray asBookings
     (snd (createCheckinFromBooking ''lx1'' ''k3f9aa''
          (browserStore
             [exampleBooking ''b_lx0_aaaaaa'' ''annisse-001'' ''precheck'' ''2024-02-01'' ''2024-02-03'' 2] [])
          (exampleBooking ''b_lx0_aaaaaa'' ''annisse-001'' ''precheck'' ''2024-02-01'' ''2024-02-03'' 2)
          emptyOverrides)) BOOKING_KEY
   = [exampleBooking ''b_lx0_aaaaaa'' ''annisse-001'' ''converted'' ''2024-02-01'' ''2024-02-03'' 2] \<and>
   recId (fst (createCheckinFromBooking ''lx1'' ''k3f9aa''
          (browserStore
             [exampleBooking ''b_lx0_aaaaaa'' ''annisse-001'' ''precheck'' ''2024-02-01'' ''2024-02-03'' 2] [])
          (exampleBooking ''b_lx0_aaaaaa'' ''annisse-001'' ''precheck'' ''2024-02-01'' ''2024-02-03'' 2)
          emptyOverrides))
   \<noteq> newId ''c'' ''lx2'' ''k3f9aa'' \<and>
   recId (fst (createCheckinFromBooking ''lx1'' ''k3f9aa''
          (browserStore
             [exampleBooking ''b_lx0_aaaaaa'' ''annisse-001'' ''precheck'' ''2024-02-01'' ''2024-02-03'' 2] [])
          (exampleBooking ''b_lx0_aaaaaa'' ''annisse-001'' ''precheck'' ''2024-02-01'' ''2024-02-03'' 2)
          emptyOverrides))
   \<noteq> ''b_lx0_aaaaaa''"
proof -
  let ?b = "exampleBooking ''b_lx0_aaaaaa'' ''annisse-001'' ''precheck'' ''2024-02-01'' ''2024-02-03'' 2"
  let ?s = "browserStore [?b] []"
  let ?run = "createCheckinFromBooking ''lx1'' ''k3f9aa'' ?s ?b emptyOverrides"
  have stored: "find (\<lambda>x. recId x = recId ?b) (loadArray asBookings ?s BOOKING_KEY) = Some ?b"
    unfolding loadArray_browserStore by simp
  have run: "?run = (fst ?run, snd ?run)"
    by simp
  have acc: "accepts ?s CHECKIN_KEY" "accepts ?s BOOKING_KEY"
    by (simp_all add: browserStore_def)
  have idx: "nat (findIndex (\<lambda>x. recId x = recId ?b) [?b]) = 0"
    by (simp add: findIndex_def)
  have conv: "?b\<lparr>status := Some ''converted''\<rparr>
      = exampleBooking ''b_lx0_aaaaaa'' ''annisse-001'' ''converted'' ''2024-02-01'' ''2024-02-03'' 2"
    by (simp add: exampleBooking_def)
  have ident: "newId ''c'' ''lx1'' ''k3f9aa'' = ''c_lx1_k3f9aa''"
    by (simp add: newId_def)
  note inst = checkin_from_booking [OF stored run, where ?stamp0.0 = "''lx0''"
      and ?rnd0.0 = "''aaaaaa''" and p = "''c''" and st = "''lx2''" and rn = "''k3f9aa''"]
  have parts: "CHR ''_'' \<notin> set ''lx1'' \<and> CHR ''_'' \<notin> set ''c'' \<and> CHR ''_'' \<notin> set ''lx2'' \<and>
      (''c'' \<noteq> ''c'' \<or> ''lx2'' \<noteq> ''lx1'' \<or> ''k3f9aa'' \<noteq> ''k3f9aa'')"
    by simp
  have other: "recId (fst ?run) \<noteq> newId ''c'' ''lx2'' ''k3f9aa''"
    using inst parts by blast
  have made: "recId ?b = newId ''b'' ''lx0'' ''aaaaaa''"
    by (simp add: exampleBooking_def newId_def)
  have rid: "recId ?b = ''b_lx0_aaaaaa''"
    by (simp add: exampleBooking_def)
  have fresh: "recId (fst ?run) \<noteq> ''b_lx0_aaaaaa''"
    using inst made unfolding rid by blast
  show ?thesis
    using inst acc other fresh
    unfolding loadArray_browserStore idx conv ident
    by simp
qed

subsection \<open>No reservation is counted twice\<close>

lemma inInterval_stayOfBooking: "inInterval (stayOfBooking ident b) day = inInterval b day"
  by (cases "checkIn b") (simp_all add: inInterval_def stayOfBooking_def)

lemma stayShare_stayOfBooking:
  "stayShare kid day (stayOfBooking ident b)
     = (if ofTenant kid b \<and> inInterval b day then countOr1 (catCount b) else 0)"
  unfolding stayShare_def inInterval_stayOfBooking
  by (simp add: stayOfBooking_def ofTenant_def)

lemma bookingShare_converted: "bookingShare kid day (b\<lparr>status := Some ''converted''\<rparr>) = 0"
  by (simp add: bookingShare_def)

lemma bookingsOccupancy_converted:
  assumes "find (\<lambda>x. recId x = recId b) (loadArray asBookings s BOOKING_KEY) = Some b"
    and "accepts s BOOKING_KEY"
  shows "bookingsOccupancy (snd (createCheckinFromBooking stamp rnd s b emptyOverrides)) kid day
      = bookingsOccupancy s kid day - bookingShare kid day b"
proof -
  let ?bs = "loadArray asBookings s BOOKING_KEY"
  from find_first_index[OF assms(1), of 0] obtain i where
    i: "i < length ?bs" "?bs ! i = b" "findIndex (\<lambda>x. recId x = recId b) ?bs = int i"
    by (auto simp: findIndex_def)
  show ?thesis
    using assms(2) i
    by (simp add: bookingsOccupancy_def createCheckin_result(3)[OF assms(1)]
        sum_list_map_update bookingShare_converted)
qed

lemma staysOccupancy_converted:
  assumes "find (\<lambda>x. recId x = recId b) (loadArray asBookings s BOOKING_KEY) = Some b"
    and "accepts s CHECKIN_KEY"
  shows "staysOccupancy (snd (createCheckinFromBooking stamp rnd s b emptyOverrides)) kid day
      = staysOccupancy s kid day
        + (if ofTenant kid b \<and> inInterval b day then countOr1 (catCount b) else 0)"
  using assms(2)
  by (simp add: staysOccupancy_def createCheckin_result(2)[OF assms(1)]
      stayShare_stayOfBooking)

text \<open>
  C1 as stated fails: a stay with status \<^verbatim>\<open>"checkedOut"\<close> is a stay whose status is
  not \<^verbatim>\<open>"checked_out"\<close>, and the loop skips it. With one such stay of 2 cats the code
  counts 0 on a day of the stay, the sum of the claim is 2.
\<close>

theorem legacy_checked_out_not_counted:
  "bookedOn
     (listCheckinsForKennel
        (browserStore []
           [exampleStay ''c_1'' ''annisse-001'' ''checkedOut'' ''2024-01-10'' ''2024-01-12'' 2])
        ''annisse-001'')
     (listBookingsForKennel
        (browserStore []
           [exampleStay ''c_1'' ''annisse-001'' ''checkedOut'' ''2024-01-10'' ''2024-01-12'' 2])
        ''annisse-001'')
     ''2024-01-10'' = 0 \<and>
   claimedOccupancy
     (browserStore []
        [exampleStay ''c_1'' ''annisse-001'' ''checkedOut'' ''2024-01-10'' ''2024-01-12'' 2])
     ''annisse-001'' ''2024-01-10'' = 2"
  by code_simp

text \<open>
  The conversion keeps the count of a day only under conditions. An override of the number
  of cats changes it; when an earlier stored booking has the same id, or the store rejects
  the write of the bookings, the booking stays in \<^verbatim>\<open>"precheck"\<close> and is counted
  beside its stay.
\<close>

lemma conversion_with_override:
  "occupancy
     (browserStore
        [exampleBooking ''b_1'' ''annisse-001'' ''precheck'' ''2024-02-01'' ''2024-02-03'' 2] [])
     ''annisse-001'' ''2024-02-02'' = 2 \<and>
   occupancy
     (snd (createCheckinFromBooking ''lx1'' ''k3f9aa''
        (browserStore
           [exampleBooking ''b_1'' ''annisse-001'' ''precheck'' ''2024-02-01'' ''2024-02-03'' 2] [])
        (exampleBooking ''b_1'' ''annisse-001'' ''precheck'' ''2024-02-01'' ''2024-02-03'' 2)
        (emptyOverrides\<lparr>ov_catCount := Some (Some 5)\<rparr>)))
     ''annisse-001'' ''2024-02-02'' = 5"
  by code_simp

lemma conversion_with_duplicate_id:
  "occupancy
     (browserStore
        [exampleBooking ''b_1'' ''annisse-001'' ''cancelled'' ''2024-01-05'' ''2024-01-07'' 1,
         exampleBooking ''b_1'' ''annisse-001'' ''precheck'' ''2024-02-01'' ''2024-02-03'' 2] [])
     ''annisse-001'' ''2024-02-02'' = 2 \<and>
   occupancy
     (snd (createCheckinFromBooking ''lx1'' ''k3f9aa''
        (browserStore
           [exampleBooking ''b_1'' ''annisse-001'' ''cancelled'' ''2024-01-05'' ''2024-01-07'' 1,
            exampleBooking ''b_1'' ''annisse-001'' ''precheck'' ''2024-02-01'' ''2024-02-03'' 2] [])
        (exampleBooking ''b_1'' ''annisse-001'' ''precheck'' ''2024-02-01'' ''2024-02-03'' 2)
        emptyOverrides))
     ''annisse-001'' ''2024-02-02'' = 4"
  by code_simp

lemma conversion_with_rejected_write:
  "occupancy
     (snd (createCheckinFromBooking ''lx1'' ''k3f9aa''
        ((browserStore
            [exampleBooking ''b_1'' ''annisse-001'' ''precheck'' ''2024-02-01'' ''2024-02-03'' 2] [])
           \<lparr>accepts := (\<lambda>key. key \<noteq> BOOKING_KEY)\<rparr>)
        (exampleBooking ''b_1'' ''annisse-001'' ''precheck'' ''2024-02-01'' ''2024-02-03'' 2)
        emptyOverrides))
     ''annisse-001'' ''2024-02-02'' = 4"
  by code_simp

text \<open>
  C1 (amended). For every tenant id and every stored bookings and stays, the booked count
  of a day before capping is the sum of the numbers of cats (1 when absent or zero) of
  the tenant's stays whose status is neither \<^verbatim>\<open>"checked_out"\<close> nor
  \<^verbatim>\<open>"checkedOut"\<close> and whose interval contains the day, plus that of the tenant's
  bookings with status \<^verbatim>\<open>"precheck"\<close> whose interval contains the day; the days
  returned by \<open>getCapacityForRange\<close> carry this sum, capped. When
  \<open>createCheckinFromBooking\<close> is called without overrides on a booking that is the first
  stored booking with its id and the store accepts the write of the bookings, the booking
  leaves the bookings' sum; when moreover its status was \<^verbatim>\<open>"precheck"\<close> and the store
  accepts the write of the stays, the sum of every day is what it was: the reservation is
  counted as a stay and no more as a booking.
\<close>

theorem booked_count_is_occupancy:
  "bookedOn (listCheckinsForKennel s kid) (listBookingsForKennel s kid) day = occupancy s kid day \<and>
   getCapacityForRange zone parse s kid a b =
     map (\<lambda>d. \<lparr>date = d,
               booked = min (occupancy s kid d) FIXED_DAILY_CAPACITY,
               capacity = FIXED_DAILY_CAPACITY,
               free = max 0 (FIXED_DAILY_CAPACITY - min (occupancy s kid d) FIXED_DAILY_CAPACITY)\<rparr>)
       (eachDay zone parse a b) \<and>
   (find (\<lambda>x. recId x = recId bk) (loadArray asBookings s BOOKING_KEY) = Some bk \<and>
    accepts s BOOKING_KEY \<longrightarrow>
      bookingsOccupancy (snd (createCheckinFromBooking stamp rnd s bk emptyOverrides)) kid day
        = bookingsOccupancy s kid day - bookingShare kid day bk) \<and>
   (find (\<lambda>x. recId x = recId bk) (loadArray asBookings s BOOKING_KEY) = Some bk \<and>
    status bk = Some ''precheck'' \<and> accepts s CHECKIN_KEY \<and> accepts s BOOKING_KEY \<longrightarrow>
      occupancy (snd (createCheckinFromBooking stamp rnd s bk emptyOverrides)) kid day
        = occupancy s kid day)"
proof -
  have keep: "occupancy (snd (createCheckinFromBooking stamp rnd s bk emptyOverrides)) kid day
        = occupancy s kid day"
    if "find (\<lambda>x. recId x = recId bk) (loadArray asBookings s BOOKING_KEY) = Some bk"
      "status bk = Some ''precheck''" "accepts s CHECKIN_KEY" "accepts s BOOKING_KEY"
    using that
    by (simp add: occupancy_def bookingsOccupancy_converted staysOccupancy_converted
        bookingShare_def)
  show ?thesis
    using keep
    by (simp add: bookedOn_occupancy getCapacityForRange_occupancy bookingsOccupancy_converted)
qed

theorem booked_count_is_occupancy_witness:
  "occupancy
     (browserStore
        [exampleBooking ''b_1'' ''annisse-001'' ''precheck'' ''2024-02-01'' ''2024-02-03'' 2] [])
     ''annisse-001'' ''2024-02-02'' = 2 \<and>
   occupancy
     (snd (createCheckinFromBooking ''lx1'' ''k3f9aa''
        (browserStore
           [exampleBooking ''b_1'' ''annisse-001'' ''precheck'' ''2024-02-01'' ''2024-02-03'' 2] [])
        (exampleBooking ''b_1'' ''annisse-001'' ''precheck'' ''2024-02-01'' ''2024-02-03'' 2)
        emptyOverrides))
     ''annisse-001'' ''2024-02-02'' = 2"
proof -
  let ?b = "exampleBooking ''b_1'' ''annisse-001'' ''precheck'' ''2024-02-01'' ''2024-02-03'' 2"
  let ?s = "browserStore [?b] []"
  have stored: "find (\<lambda>x. recId x = recId ?b) (loadArray asBookings ?s BOOKING_KEY) = Some ?b"
    unfolding loadArray_browserStore by simp
  have acc: "accepts ?s CHECKIN_KEY" "accepts ?s BOOKING_KEY"
    by (simp_all add: browserStore_def)
  have st: "status ?b = Some ''precheck''"
    by (simp add: exampleBooking_def)
  have before: "occupancy ?s ''annisse-001'' ''2024-02-02'' = 2"
    unfolding occupancy_def staysOccupancy_def bookingsOccupancy_def loadArray_browserStore
    by (simp add: bookingShare_def ofTenant_def inInterval_def exampleBooking_def countOr1_def)
  show ?thesis
    using stored acc st before
      booked_count_is_occupancy [where s = ?s and bk = ?b and kid = "''annisse-001''"
        and day = "''2024-02-02''" and stamp = "''lx1''" and rnd = "''k3f9aa''"
        and parse = isoDateParse and zone = utcZone and a = "''2024-02-01''" and b = "''2024-02-03''"]
    by simp
qed

subsection \<open>The kennel profile\<close>

lemma saveObject_load:
  "isBrowser s \<Longrightarrow> \<not> accessDenied s \<Longrightarrow> accepts s k \<Longrightarrow>
     loadObject cast (saveObject enc s k v) k fallback = cast (toJSON (enc v))"
  by (simp add: loadObject_def loadObject_try_def saveObject_def setItem_def isBrowser_def
      getItem_def JSON_parse_def JSON_stringify_def)

lemma loadObject_missing:
  "items s k = None \<Longrightarrow> loadObject cast s k fallback = fallback"
  by (simp add: loadObject_def loadObject_try_def getItem_def)

lemma loadObject_profile:
  "items s k = Some (Json (JProfile st)) \<Longrightarrow>
     loadObject asProfile s k None = (if isBrowser s \<and> \<not> accessDenied s then Some st else None)"
  by (simp add: loadObject_def loadObject_try_def getItem_def JSON_parse_def)

text \<open>
  C6 as stated fails. A nightly rate \<^verbatim>\<open>NaN\<close> is set in the profile and comes back as
  \<^verbatim>\<open>null\<close>, as \<^verbatim>\<open>JSON.stringify\<close> writes it. Without a window
  \<open>saveKennelProfile\<close> stores nothing and \<open>loadKennelProfile\<close> returns the default
  profile, with the default's name.
\<close>

theorem profile_not_returned:
  "nightlyRate (exampleProfile (Val NaN)) = Val NaN \<and>
   nightlyRate (loadKennelProfile
      (saveKennelProfile (browserStore [] []) (exampleProfile (Val NaN))) ''kennel-7'') = Null \<and>
   name (exampleProfile (Val (Num 300))) = ''Kattehuset'' \<and>
   name (loadKennelProfile
      (saveKennelProfile ((browserStore [] [])\<lparr>hasWindow := False\<rparr>)
         (exampleProfile (Val (Num 300)))) ''kennel-7'') = ''Annisse Kattepension''"
  by code_simp

text \<open>
  C6 (amended). In a browser whose store accepts the write, \<open>saveKennelProfile p\<close>
  followed by \<open>loadKennelProfile (id p)\<close> returns the id and name of \<open>p\<close>; every optional
  field that \<open>p\<close> sets, to a value or to \<^verbatim>\<open>null\<close>, as \<open>p\<close> has it, except that a
  nightly rate that is \<^verbatim>\<open>NaN\<close> or infinite comes back as \<^verbatim>\<open>null\<close>; and every field
  \<open>p\<close> leaves out with the value of \<open>DEFAULT_PROFILE\<close>. \<open>loadKennelProfile\<close> returns
  \<open>DEFAULT_PROFILE\<close> when no profile is stored and when the stored profile has another id
  than the one asked for.
\<close>

theorem profile_round_trip:
  "(isBrowser s \<and> \<not> accessDenied s \<and> accepts s PROFILE_KEY \<longrightarrow>
      profId (loadKennelProfile (saveKennelProfile s p) (profId p)) = profId p \<and>
      name (loadKennelProfile (saveKennelProfile s p) (profId p)) = name p \<and>
      nightlyRate (loadKennelProfile (saveKennelProfile s p) (profId p))
        = (case nightlyRate p of
             Absent \<Rightarrow> nightlyRate DEFAULT_PROFILE
           | Null \<Rightarrow> Null
           | Val (Num n) \<Rightarrow> Val (Num n)
           | Val _ \<Rightarrow> Null) \<and>
      (\<forall>f\<in>set [tagline, addressLine1, postalCode, city, phone, email, website,
                 shortDescription, sellingPoints, practicalInfo, conditionsText].
         f (loadKennelProfile (saveKennelProfile s p) (profId p))
           = (case f p of Absent \<Rightarrow> f DEFAULT_PROFILE | Null \<Rightarrow> Null | Val v \<Rightarrow> Val v))) \<and>
   (items s PROFILE_KEY = None \<longrightarrow> loadKennelProfile s kid = DEFAULT_PROFILE) \<and>
   (items s PROFILE_KEY = Some (Json (JProfile st)) \<and> profId st \<noteq> kid \<longrightarrow>
      loadKennelProfile s kid = DEFAULT_PROFILE)"
proof -
  have rt: "loadKennelProfile (saveKennelProfile s p) (profId p)
      = spreadProfile DEFAULT_PROFILE (p\<lparr>nightlyRate := jsonNumber (nightlyRate p)\<rparr>)"
    if "isBrowser s \<and> \<not> accessDenied s \<and> accepts s PROFILE_KEY"
    using that by (simp add: loadKennelProfile_def saveKennelProfile_def saveObject_load)
  have a: "items s PROFILE_KEY = None \<longrightarrow> loadKennelProfile s kid = DEFAULT_PROFILE"
    by (simp add: loadKennelProfile_def loadObject_missing)
  have b: "items s PROFILE_KEY = Some (Json (JProfile st)) \<and> profId st \<noteq> kid \<longrightarrow>
      loadKennelProfile s kid = DEFAULT_PROFILE"
    by (simp add: loadKennelProfile_def loadObject_profile)
  have n: "orSet (jsonNumber (nightlyRate p)) d
      = (case nightlyRate p of Absent \<Rightarrow> d | Null \<Rightarrow> Null | Val (Num n) \<Rightarrow> Val (Num n)
         | Val _ \<Rightarrow> Null)" for d
    by (cases "nightlyRate p" rule: jsonNumber.cases) (simp_all add: orSet_def)
  show ?thesis
    using a b by (simp add: rt spreadProfile_def n) (simp add: orSet_def)
qed

theorem profile_round_trip_witness:
  "tagline (loadKennelProfile
      (saveKennelProfile (browserStore [] []) (exampleProfile (Val (Num 300)))) ''kennel-7'')
     = Val ''Ro og pleje'' \<and>
   city (loadKennelProfile
      (saveKennelProfile (browserStore [] []) (exampleProfile (Val (Num 300)))) ''kennel-7'')
     = Val ''Annisse'' \<and>
   nightlyRate (loadKennelProfile
      (saveKennelProfile (browserStore [] []) (exampleProfile (Val (Num 300)))) ''kennel-7'')
     = Val (Num 300) \<and>
   name (loadKennelProfile
      (saveKennelProfile (browserStore [] []) (exampleProfile (Val (Num 300)))) ''kennel-7'')
     = ''Kattehuset'' \<and>
   loadKennelProfile (browserStore [] []) ''kennel-7'' = DEFAULT_PROFILE"
proof -
  let ?s = "browserStore [] []"
  let ?p = "exampleProfile (Val (Num 300))"
  have env: "isBrowser ?s \<and> \<not> accessDenied ?s \<and> accepts ?s PROFILE_KEY"
    by (simp add: browserStore_def isBrowser_def)
  have none: "items ?s PROFILE_KEY = None"
    by (simp add: browserStore_def storage_keys_distinct)
  have p: "profId ?p = ''kennel-7''" "name ?p = ''Kattehuset''"
    "tagline ?p = Val ''Ro og pleje''" "city ?p = Absent" "nightlyRate ?p = Val (Num 300)"
    by (simp_all add: exampleProfile_def)
  have d: "city DEFAULT_PROFILE = Val ''Annisse''"
    by (simp add: DEFAULT_PROFILE_def)
  from profile_round_trip [where s = ?s and p = ?p and kid = "''kennel-7''" and st = ?p] env none
  have rt: "name (loadKennelProfile (saveKennelProfile ?s ?p) (profId ?p)) = name ?p"
    "tagline (loadKennelProfile (saveKennelProfile ?s ?p) (profId ?p))
       = (case tagline ?p of Absent \<Rightarrow> tagline DEFAULT_PROFILE | Null \<Rightarrow> Null | Val v \<Rightarrow> Val v)"
    "city (loadKennelProfile (saveKennelProfile ?s ?p) (profId ?p))
       = (case city ?p of Absent \<Rightarrow> city DEFAULT_PROFILE | Null \<Rightarrow> Null | Val v \<Rightarrow> Val v)"
    "nightlyRate (loadKennelProfile (saveKennelProfile ?s ?p) (profId ?p))
       = (case nightlyRate ?p of Absent \<Rightarrow> nightlyRate DEFAULT_PROFILE | Null \<Rightarrow> Null
          | Val (Num n) \<Rightarrow> Val (Num n) | Val _ \<Rightarrow> Null)"
    "loadKennelProfile ?s ''kennel-7'' = DEFAULT_PROFILE"
    by simp_all
  show ?thesis
    using rt unfolding p d by simp
qed

subsection \<open>The owner's booking request\<close>




end
